theory Spec2Isabelle
  imports Complex_Main "HOL-Library.Word" "HOL-Library.AList" "HOL-Library.Sublist"
begin

unbundle bit_operations_syntax

section \<open>Exceptions\<close>

text \<open>
  The exceptions of \<^verbatim>\<open>cleanup.py\<close> that the modelled functions can raise. A function
  that can raise returns \<open>error + 'a\<close>, with \<open>Inl\<close> for the exception.
\<close>

datatype error =
    UnboundLocalError
  | AssertionError
  | ZeroDivisionError
  | KeyError
  | AttributeError
  | ValueError
  | RecursionError
  | SMException
  | XenAPIFailure
  | AbortException
  | OSError
  | UnicodeDecodeError

section \<open>Util: counting the bits of block bitmaps\<close>

text \<open>
  A block bitmap is a Python \<^verbatim>\<open>bytes\<close> object: indexing it gives an integer between 0 and
  255, modelled as an 8-bit word.

  \<^verbatim>\<open>Util.numBits\<close>: the loop \<^verbatim>\<open>while val: count += val & 1; val = val >> 1\<close>.
\<close>

type_synonym byte = "8 word"

function numBits_loop :: "byte \<Rightarrow> nat \<Rightarrow> nat" where
  "numBits_loop val count =
     (if val \<noteq> 0 then numBits_loop (drop_bit 1 val) (count + unat (val AND 1)) else count)"
  by pat_completeness auto
termination
proof (relation "measure (\<lambda>(val, count). unat val)")
  show "wf (measure (\<lambda>(val, count). unat val))" by simp
next
  fix val :: byte and count :: nat
  assume nz: "val \<noteq> 0"
  then have "unat val \<noteq> 0" by (simp add: unat_eq_0)
  then have "unat val div 2 < unat val" by simp
  then show "((drop_bit 1 val, count + unat (val AND 1)), (val, count))
      \<in> measure (\<lambda>(val, count). unat val)"
    by (simp add: drop_bit_eq_div unat_div)
qed

declare numBits_loop.simps [simp del]

definition numBits :: "byte \<Rightarrow> nat" where
  "numBits val = numBits_loop val 0"

text \<open>
  \<^verbatim>\<open>Util.countBits\<close>. The first loop runs \<open>i\<close> over \<^verbatim>\<open>range(lenShort)\<close>; the second loop
  starts at \<^verbatim>\<open>i + 1\<close>, reading the loop variable the first loop left behind. When the
  first loop has no iteration (\<open>lenShort = 0\<close>), \<open>i\<close> was never assigned and Python raises
  \<^verbatim>\<open>UnboundLocalError\<close>. \<open>countBits_i\<close> is the value of \<open>i\<close> after the first loop.
\<close>

definition countBits_i :: "nat \<Rightarrow> nat option" where
  "countBits_i lenShort = (if lenShort = 0 then None else Some (lenShort - 1))"

definition countBits :: "byte list \<Rightarrow> byte list \<Rightarrow> error + nat" where
  "countBits bitmap1 bitmap2 =
     (let len1 = length bitmap1;
          len2 = length bitmap2;
          (lenLong, lenShort, bitmapLong) =
             (if len2 > len1 then (len2, len1, bitmap2) else (len1, len2, bitmap1));
          count = fold (\<lambda>i count. count + numBits ((bitmap1 ! i) OR (bitmap2 ! i)))
                    [0..<lenShort] 0
      in case countBits_i lenShort of
           None \<Rightarrow> Inl UnboundLocalError
         | Some i \<Rightarrow>
             Inr (fold (\<lambda>i count. count + numBits (bitmapLong ! i)) [i + 1..<lenLong] count))"

text \<open>
  \<^verbatim>\<open>VDI._getCoalescedSizeData\<close>, given the two block bitmaps that \<^verbatim>\<open>getVHDBlocks\<close> returned
  for the VDI and for its parent. \<^verbatim>\<open>vhdutil.VHD_BLOCK_SIZE\<close> is a constant of a module that
  is not part of the sources at hand and is taken as a parameter. The \<^verbatim>\<open>assert\<close> is
  the \<open>AssertionError\<close> branch.
\<close>

definition getCoalescedSizeData :: "int \<Rightarrow> byte list \<Rightarrow> byte list \<Rightarrow> int \<Rightarrow> error + int" where
  "getCoalescedSizeData VHD_BLOCK_SIZE blocksChild blocksParent sizeVirt =
     (case countBits blocksChild blocksParent of
        Inl e \<Rightarrow> Inl e
      | Inr numBlocks \<Rightarrow>
          (let sizeData = int numBlocks * VHD_BLOCK_SIZE
           in if sizeData \<le> sizeVirt then Inr sizeData else Inl AssertionError))"

subsection \<open>What the bit count is meant to be\<close>

text \<open>
  The docstring of \<^verbatim>\<open>countBits\<close>: "return bit count in the bitmap produced by ORing the
  two bitmaps". \<open>popcount\<close> is the number of set bits of a byte, \<open>or_bitmaps\<close> the
  bytewise OR of the two bitmaps with the shorter one extended by zero bytes, and
  \<open>bitcount\<close> the number of set bits of a bitmap.
\<close>

definition popcount :: "byte \<Rightarrow> nat" where
  "popcount w = length (filter (bit w) [0..<8])"

definition zero_extend :: "nat \<Rightarrow> byte list \<Rightarrow> byte list" where
  "zero_extend n bs = bs @ replicate (n - length bs) 0"

definition or_bitmaps :: "byte list \<Rightarrow> byte list \<Rightarrow> byte list" where
  "or_bitmaps b1 b2 =
     (let n = max (length b1) (length b2)
      in map2 (OR) (zero_extend n b1) (zero_extend n b2))"

definition bitcount :: "byte list \<Rightarrow> nat" where
  "bitcount bs = sum_list (map popcount bs)"

section \<open>VDI objects\<close>

text \<open>
  A VDI object of \<^verbatim>\<open>cleanup.py\<close> (class \<^verbatim>\<open>VDI\<close>), with the fields that the modelled methods
  read or write. Python objects are handled by reference: a reference is an object
  identifier \<open>oid\<close>, and \<open>parent\<close> and \<open>children\<close> hold references, as in the code.
  \<open>sizeVHD\<close> and \<open>sizeAllocated\<close> are the fields \<^verbatim>\<open>_sizeVHD\<close> and \<^verbatim>\<open>_sizeAllocated\<close>.
  \<open>config\<close> is what the control plane holds for the VDI and \<^verbatim>\<open>xapi.getConfigVDI\<close> returns:
  a dictionary from configuration keys to values.
\<close>

type_synonym oid = nat

record vdi =
  uuid :: string
  raw :: bool
  scanError :: bool
  path :: string
  parentUuid :: string
  sizeVirt :: int
  sizeVHD :: int
  sizeAllocated :: int
  hidden :: bool
  parent :: "oid option"
  children :: "oid list"
  config :: "string \<rightharpoonup> string"

definition DB_LEAFCLSC :: string where "DB_LEAFCLSC = ''leaf-coalesce''"
definition LEAFCLSC_FORCE :: string where "LEAFCLSC_FORCE = ''force''"
definition LIVE_LEAF_COALESCE_MAX_SIZE :: int where
  "LIVE_LEAF_COALESCE_MAX_SIZE = 20 * 1024 * 1024"
definition LIVE_LEAF_COALESCE_TIMEOUT :: real where "LIVE_LEAF_COALESCE_TIMEOUT = 10"
definition TIMEOUT_SAFETY_MARGIN :: real where "TIMEOUT_SAFETY_MARGIN = 0.5"

text \<open>
  \<^verbatim>\<open>VDI.getConfig(key)\<close> with the default \<^verbatim>\<open>None\<close>: a missing or empty value gives \<^verbatim>\<open>None\<close>.
\<close>

definition getConfig :: "vdi \<Rightarrow> string \<Rightarrow> string option" where
  "getConfig self key =
     (case config self key of
        None \<Rightarrow> None
      | Some val \<Rightarrow> if val \<noteq> [] then Some val else None)"

text \<open>\<^verbatim>\<open>VDI.getAllocatedSize\<close> and \<^verbatim>\<open>VDI.getSizeVHD\<close> of the base class.\<close>

definition getAllocatedSize :: "vdi \<Rightarrow> int" where
  "getAllocatedSize self = sizeAllocated self"

definition getSizeVHD :: "vdi \<Rightarrow> int" where
  "getSizeVHD self = sizeVHD self"

section \<open>VDI.canLiveCoalesce and SR.getStorageSpeed\<close>

text \<open>
  The speed is \<^verbatim>\<open>None\<close> or a Python float; floats are modelled as real numbers, so
  rounding and the special values of IEEE arithmetic are outside the model (they are
  taken up below, for the speed that \<^verbatim>\<open>getStorageSpeed\<close> reads from the log). Python's
  floor division \<open>a // b\<close> of floats raises \<^verbatim>\<open>ZeroDivisionError\<close> when \<open>b\<close> is zero and is
  the floor of the quotient otherwise.
\<close>

definition py_floordiv :: "real \<Rightarrow> real \<Rightarrow> error + real" where
  "py_floordiv a b = (if b = 0 then Inl ZeroDivisionError else Inr (of_int \<lfloor>a / b\<rfloor>))"

text \<open>\<^verbatim>\<open>if speed:\<close> holds for a float other than zero, not for \<^verbatim>\<open>None\<close>.\<close>

definition truthy_speed :: "real option \<Rightarrow> bool" where
  "truthy_speed speed = (case speed of None \<Rightarrow> False | Some s \<Rightarrow> s \<noteq> 0)"

definition canLiveCoalesce :: "vdi \<Rightarrow> real option \<Rightarrow> error + bool" where
  "canLiveCoalesce self speed =
     (let allowedDownTime = TIMEOUT_SAFETY_MARGIN * LIVE_LEAF_COALESCE_TIMEOUT;
          vhd_size = getAllocatedSize self
      in case (case speed of
                 Some s \<Rightarrow>
                   if truthy_speed speed then
                     (case py_floordiv (real_of_int vhd_size) s of
                        Inl e \<Rightarrow> Inl e
                      | Inr q \<Rightarrow> Inr (q < allowedDownTime))
                   else Inr (vhd_size < LIVE_LEAF_COALESCE_MAX_SIZE)
               | None \<Rightarrow> Inr (vhd_size < LIVE_LEAF_COALESCE_MAX_SIZE)) of
           Inl e \<Rightarrow> Inl e
         | Inr feasibleSize \<Rightarrow>
             Inr (feasibleSize \<or> getConfig self DB_LEAFCLSC = Some LEAFCLSC_FORCE))"

subsection \<open>Python floats with their special values\<close>

text \<open>
  The speed log is a text file that \<^verbatim>\<open>float()\<close> reads line by line, and \<^verbatim>\<open>float()\<close> accepts
  \<^verbatim>\<open>nan\<close>, \<^verbatim>\<open>inf\<close> and \<^verbatim>\<open>-inf\<close>. A Python float is therefore a finite number (a real:
  rounding, overflow and the sign of zero are not modelled), one of the two infinities,
  or not-a-number. The operations are those of Python on such values: \<open>+\<close>, \<open>/\<close> (which
  raises \<^verbatim>\<open>ZeroDivisionError\<close> for a zero divisor), \<open>//\<close> with an integer on the left (which
  raises for a zero divisor as well), and the comparisons \<open><=\<close> and \<open><\<close>, which are false
  when a side is not-a-number.
\<close>

datatype pyfloat = Finite real | PosInf | NegInf | NaN

fun float_add :: "pyfloat \<Rightarrow> pyfloat \<Rightarrow> pyfloat" where
  "float_add NaN y = NaN"
| "float_add (Finite a) (Finite b) = Finite (a + b)"
| "float_add (Finite a) y = y"
| "float_add PosInf (Finite b) = PosInf"
| "float_add PosInf PosInf = PosInf"
| "float_add PosInf y = NaN"
| "float_add NegInf (Finite b) = NegInf"
| "float_add NegInf NegInf = NegInf"
| "float_add NegInf y = NaN"

fun float_truediv :: "pyfloat \<Rightarrow> pyfloat \<Rightarrow> error + pyfloat" where
  "float_truediv x (Finite b) =
     (if b = 0 then Inl ZeroDivisionError
      else Inr (case x of
                  Finite a \<Rightarrow> Finite (a / b)
                | PosInf \<Rightarrow> if 0 < b then PosInf else NegInf
                | NegInf \<Rightarrow> if 0 < b then NegInf else PosInf
                | NaN \<Rightarrow> NaN))"
| "float_truediv x NaN = Inr NaN"
| "float_truediv x y = Inr (case x of Finite a \<Rightarrow> Finite 0 | z \<Rightarrow> NaN)"

fun float_le :: "pyfloat \<Rightarrow> pyfloat \<Rightarrow> bool" where
  "float_le NaN y = False"
| "float_le x NaN = False"
| "float_le NegInf y = True"
| "float_le x PosInf = True"
| "float_le (Finite a) (Finite b) = (a \<le> b)"
| "float_le x y = False"

fun float_lt :: "pyfloat \<Rightarrow> pyfloat \<Rightarrow> bool" where
  "float_lt NaN y = False"
| "float_lt x NaN = False"
| "float_lt (Finite a) (Finite b) = (a < b)"
| "float_lt NegInf NegInf = False"
| "float_lt NegInf y = True"
| "float_lt PosInf y = False"
| "float_lt (Finite a) PosInf = True"
| "float_lt (Finite a) NegInf = False"

text \<open>
  \<open>a // y\<close> for an integer \<open>a\<close> (given as a real) and a float \<open>y\<close>: the floor of the quotient
  for a finite \<open>y\<close>; for an infinite \<open>y\<close> it is \<open>0.0\<close>, or \<open>-1.0\<close> when \<open>a\<close> is not zero and the
  signs differ; for not-a-number it is not-a-number.
\<close>

fun float_floordiv :: "real \<Rightarrow> pyfloat \<Rightarrow> error + pyfloat" where
  "float_floordiv a (Finite b) =
     (if b = 0 then Inl ZeroDivisionError else Inr (Finite (of_int \<lfloor>a / b\<rfloor>)))"
| "float_floordiv a PosInf = Inr (Finite (if a < 0 then - 1 else 0))"
| "float_floordiv a NegInf = Inr (Finite (if 0 < a then - 1 else 0))"
| "float_floordiv a NaN = Inr NaN"

text \<open>\<^verbatim>\<open>sum(content)\<close> adds the elements to the integer 0, from left to right.\<close>

definition py_sum :: "pyfloat list \<Rightarrow> pyfloat" where
  "py_sum content = foldl float_add (Finite 0) content"

text \<open>
  \<^verbatim>\<open>SR.getStorageSpeed\<close>. The speed log is not a file (\<open>None\<close>), or \<^verbatim>\<open>open\<close> or
  \<^verbatim>\<open>readlines\<close> raises an exception on it (\<open>Some (Inl e)\<close>: the two calls stand outside the
  inner \<^verbatim>\<open>try\<close>, so the exception leaves the method), or it holds a list of lines.
  \<^verbatim>\<open>float(i)\<close> is a parameter: it gives the float a line stands for, or \<open>None\<close> where
  Python raises \<^verbatim>\<open>ValueError\<close>. \<^verbatim>\<open>self.lock()\<close> can raise; what it does is a parameter too
  (\<open>None\<close> when the lock is taken). \<open>parse_lines\<close> is the list comprehension
  \<^verbatim>\<open>[float(i) for i in content]\<close>.
\<close>

fun parse_lines :: "(string \<Rightarrow> pyfloat option) \<Rightarrow> string list \<Rightarrow> error + pyfloat list" where
  "parse_lines float_of [] = Inr []"
| "parse_lines float_of (i # content) =
     (case float_of i of
        None \<Rightarrow> Inl ValueError
      | Some x \<Rightarrow>
          (case parse_lines float_of content of
             Inl e \<Rightarrow> Inl e
           | Inr xs \<Rightarrow> Inr (x # xs)))"

definition getStorageSpeed ::
    "(string \<Rightarrow> pyfloat option) \<Rightarrow> error option \<Rightarrow> (error + string list) option
       \<Rightarrow> error + pyfloat option" where
  "getStorageSpeed float_of lock speedFile =
     (case lock of
        Some e \<Rightarrow> Inl e
      | None \<Rightarrow>
          (let speed = None
           in case speedFile of
                Some (Inl e) \<Rightarrow> Inl e
              | Some (Inr content) \<Rightarrow>
                  (case parse_lines float_of content of
                     Inl e \<Rightarrow> Inr speed
                   | Inr content \<Rightarrow>
                       if length content \<noteq> 0 then
                         (case float_truediv (py_sum content) (Finite (real (length content))) of
                            Inl e \<Rightarrow> Inl e
                          | Inr speed \<Rightarrow>
                              if float_le speed (Finite 0) then Inr None else Inr (Some speed))
                       else Inr speed)
              | None \<Rightarrow> Inr speed))"

text \<open>
  \<^verbatim>\<open>VDI.canLiveCoalesce\<close> once more, with a speed that may be a special value, as
  \<^verbatim>\<open>getStorageSpeed\<close> can return it. \<^verbatim>\<open>if speed:\<close> holds for every float but zero, also for
  not-a-number.
\<close>

definition truthy_float :: "pyfloat option \<Rightarrow> bool" where
  "truthy_float speed = (case speed of None \<Rightarrow> False | Some s \<Rightarrow> s \<noteq> Finite 0)"

definition canLiveCoalesce_ieee :: "vdi \<Rightarrow> pyfloat option \<Rightarrow> error + bool" where
  "canLiveCoalesce_ieee self speed =
     (let allowedDownTime = TIMEOUT_SAFETY_MARGIN * LIVE_LEAF_COALESCE_TIMEOUT;
          vhd_size = getAllocatedSize self
      in case (case speed of
                 Some s \<Rightarrow>
                   if truthy_float speed then
                     (case float_floordiv (real_of_int vhd_size) s of
                        Inl e \<Rightarrow> Inl e
                      | Inr q \<Rightarrow> Inr (float_lt q (Finite allowedDownTime)))
                   else Inr (vhd_size < LIVE_LEAF_COALESCE_MAX_SIZE)
               | None \<Rightarrow> Inr (vhd_size < LIVE_LEAF_COALESCE_MAX_SIZE)) of
           Inl e \<Rightarrow> Inl e
         | Inr feasibleSize \<Rightarrow>
             Inr (feasibleSize \<or> getConfig self DB_LEAFCLSC = Some LEAFCLSC_FORCE))"

text \<open>
  A leaf of 5 MiB, and \<^verbatim>\<open>float()\<close> on the lines of the examples (a line that is not listed
  stands for one that \<^verbatim>\<open>float()\<close> rejects).
\<close>

definition small_leaf :: vdi where
  "small_leaf =
     \<lparr> uuid = ''leaf'', raw = False, scanError = False, path = ''leaf.vhd'',
       parentUuid = ''base'', sizeVirt = 10485760, sizeVHD = 5242880,
       sizeAllocated = 5242880, hidden = False, parent = Some 0, children = [],
       config = Map.empty \<rparr>"

definition example_float :: "string \<Rightarrow> pyfloat option" where
  "example_float line =
     (if line = ''1000.0'' then Some (Finite 1000)
      else if line = ''3000.0'' then Some (Finite 3000)
      else if line = ''0.0'' then Some (Finite 0)
      else if line = ''nan'' then Some NaN
      else if line = ''inf'' then Some PosInf
      else if line = ''-inf'' then Some NegInf
      else None)"

section \<open>SR.CoalesceTracker\<close>

text \<open>
  The progress tracker of the leaf-coalesce loop. Sizes are the integers that
  \<^verbatim>\<open>vdi.getSizeVHD()\<close> returns. \<open>minSize\<close> starts as \<^verbatim>\<open>float("inf")\<close>, modelled as
  \<open>None\<close>; \<open>startSize\<close> and \<open>finishSize\<close> start as \<^verbatim>\<open>None\<close>. An entry of \<open>history\<close> holds
  the three values that \<^verbatim>\<open>HISTORY_STRING\<close> formats.
\<close>

record tracker =
  itsNoProgress :: int
  its :: int
  minSize :: "int option"
  history :: "(int \<times> int \<times> int) list"
  reason :: string
  startSize :: "int option"
  finishSize :: "int option"
  grace_remaining :: int

definition GRACE_ITERATIONS :: int where "GRACE_ITERATIONS = 2"
definition MAX_ITERATIONS_NO_PROGRESS :: int where "MAX_ITERATIONS_NO_PROGRESS = 3"
definition MAX_ITERATIONS :: int where "MAX_ITERATIONS = 10"
definition MAX_INCREASE_FROM_MINIMUM :: real where "MAX_INCREASE_FROM_MINIMUM = 1.2"

text \<open>\<^verbatim>\<open>CoalesceTracker.__init__\<close>.\<close>

definition new_tracker :: tracker where
  "new_tracker =
     \<lparr> itsNoProgress = 0, its = 0, minSize = None, history = [], reason = [],
       startSize = None, finishSize = None, grace_remaining = GRACE_ITERATIONS \<rparr>"

text \<open>
  \<open>size < self.minSize\<close>, where \<open>minSize\<close> may still be infinite, and
  \<open>curSize > MAX_INCREASE_FROM_MINIMUM * self.minSize\<close>. The product is a Python float; it
  is computed here in exact arithmetic.
\<close>

definition less_minSize :: "int \<Rightarrow> int option \<Rightarrow> bool" where
  "less_minSize sz m = (case m of None \<Rightarrow> True | Some k \<Rightarrow> sz < k)"

definition above_maxSizeFromMin :: "int \<Rightarrow> int option \<Rightarrow> bool" where
  "above_maxSizeFromMin curSize m =
     (case m of None \<Rightarrow> False
      | Some k \<Rightarrow> real_of_int curSize > MAX_INCREASE_FROM_MINIMUM * real_of_int k)"

text \<open>
  \<^verbatim>\<open>CoalesceTracker.abortCoalesce(prevSize, curSize)\<close>: the returned boolean and the updated
  tracker. \<open>abortCoalesce_record\<close> is the first part of the method, up to the update of
  \<open>minSize\<close>, which records the call; the rest decides.
\<close>

definition abortCoalesce_record :: "tracker \<Rightarrow> int \<Rightarrow> int \<Rightarrow> tracker" where
  "abortCoalesce_record self prevSize curSize =
     (let self = self\<lparr>its := its self + 1\<rparr>;
          self = self\<lparr>history := history self @ [(its self, prevSize, curSize)]\<rparr>;
          self = self\<lparr>finishSize := Some curSize\<rparr>;
          self = (if startSize self = None then self\<lparr>startSize := Some prevSize\<rparr> else self);
          self = (if less_minSize curSize (minSize self)
                  then self\<lparr>minSize := Some curSize\<rparr> else self);
          self = (if less_minSize prevSize (minSize self)
                  then self\<lparr>minSize := Some prevSize\<rparr> else self)
      in self)"

definition abortCoalesce :: "tracker \<Rightarrow> int \<Rightarrow> int \<Rightarrow> bool \<times> tracker" where
  "abortCoalesce self prevSize curSize =
     (let self = abortCoalesce_record self prevSize curSize
      in if its self = 1 then (False, self)
         else if prevSize < curSize then
           (let self = self\<lparr>itsNoProgress := itsNoProgress self + 1\<rparr>
            in if its self > MAX_ITERATIONS then
                 (True, self\<lparr>reason := ''Max iterations (10) exceeded''\<rparr>)
               else if itsNoProgress self > MAX_ITERATIONS_NO_PROGRESS then
                 (True, self\<lparr>reason := ''No progress made for 3 iterations''\<rparr>)
               else if above_maxSizeFromMin curSize (minSize self) then
                 (let self = self\<lparr>grace_remaining := grace_remaining self - 1\<rparr>
                  in if grace_remaining self = 0 then
                       (True, self\<lparr>reason :=
                          ''Unexpected bump in size, compared to minimum achieved''\<rparr>)
                     else (False, self))
               else (False, self))
         else (False, self))"

text \<open>
  A sequence of \<open>(prevSize, curSize)\<close> pairs fed to one tracker, call after call:
  \<open>feed\<close> gives the boolean of every call and the tracker after the last one.
\<close>

fun feed :: "tracker \<Rightarrow> (int \<times> int) list \<Rightarrow> bool list \<times> tracker" where
  "feed self [] = ([], self)"
| "feed self ((prevSize, curSize) # rest) =
     (let (abort, self) = abortCoalesce self prevSize curSize;
          (aborts, self) = feed self rest
      in (abort # aborts, self))"

text \<open>
  What the sequence itself says: a pair whose size grew (\<open>prevSize < curSize\<close>), and the
  smallest size seen so far.
\<close>

definition grew :: "int \<times> int \<Rightarrow> bool" where
  "grew pc = (fst pc < snd pc)"

fun min_seen :: "(int \<times> int) list \<Rightarrow> int option" where
  "min_seen [] = None"
| "min_seen ((prevSize, curSize) # rest) =
     (case min_seen rest of
        None \<Rightarrow> Some (min prevSize curSize)
      | Some k \<Rightarrow> Some (min (min prevSize curSize) k))"

text \<open>The tracker after a sequence of pairs has been fed to a fresh one.\<close>

definition tracker_after :: "(int \<times> int) list \<Rightarrow> tracker" where
  "tracker_after xs = snd (feed new_tracker xs)"

section \<open>SR._coalesceLeaf: the iteration loop\<close>

text \<open>
  The loop of \<^verbatim>\<open>SR._coalesceLeaf\<close>. What the loop reads from outside in its \<open>i\<close>-th
  round is given by a behaviour \<open>env i\<close>: the value of
  \<^verbatim>\<open>vdi.canLiveCoalesce(self.getStorageSpeed())\<close> at the loop test, the size
  \<^verbatim>\<open>vdi.getSizeVHD()\<close> before the snapshot-coalesce, what \<^verbatim>\<open>_snapshotCoalesce\<close> does
  (returns true, returns false, or raises), and the size after it.
\<close>

datatype snapshot_result = SnapTrue | SnapFalse | SnapRaise error

record round =
  canLive :: bool
  prevSizeVHD :: int
  snapshotCoalesce :: snapshot_result
  newSizeVHD :: int

text \<open>
  How the loop ends: it leaves the \<^verbatim>\<open>while\<close> and goes on to \<^verbatim>\<open>_liveLeafCoalesce\<close>, it
  returns \<^verbatim>\<open>False\<close>, or it raises. The natural number is the number of rounds begun
  by then. The loop may run forever, so its result is an \<open>option\<close>.
\<close>

datatype loop_end = LiveStep | ReturnFalse | Raise error

partial_function (option) coalesceLeaf_loop ::
    "(nat \<Rightarrow> round) \<Rightarrow> nat \<Rightarrow> tracker \<Rightarrow> (loop_end \<times> nat) option" where
  "coalesceLeaf_loop env i tracker =
     (if canLive (env i) then Some (LiveStep, i)
      else case snapshotCoalesce (env i) of
             SnapRaise e \<Rightarrow> Some (Raise e, i + 1)
           | SnapFalse \<Rightarrow> Some (ReturnFalse, i + 1)
           | SnapTrue \<Rightarrow>
               (let (abort, tracker) =
                      abortCoalesce tracker (prevSizeVHD (env i)) (newSizeVHD (env i))
                in if abort then Some (Raise SMException, i + 1)
                   else coalesceLeaf_loop env (i + 1) tracker))"

definition coalesceLeaf :: "(nat \<Rightarrow> round) \<Rightarrow> (loop_end \<times> nat) option" where
  "coalesceLeaf env = coalesceLeaf_loop env 0 new_tracker"

text \<open>A round in which the size grew: \<open>prevSizeVHD < newSizeVHD\<close>.\<close>

definition round_grew :: "round \<Rightarrow> bool" where
  "round_grew r = (prevSizeVHD r < newSizeVHD r)"

text \<open>A behaviour in which the size never changes and the leaf never becomes small enough.\<close>

definition steady_round :: round where
  "steady_round =
     \<lparr> canLive = False, prevSizeVHD = 5, snapshotCoalesce = SnapTrue, newSizeVHD = 5 \<rparr>"

definition steady_env :: "nat \<Rightarrow> round" where
  "steady_env i = steady_round"

text \<open>A behaviour in which every snapshot-coalesce leaves the leaf bigger than before.\<close>

definition growing_env :: "nat \<Rightarrow> round" where
  "growing_env i =
     \<lparr> canLive = False, prevSizeVHD = 100, snapshotCoalesce = SnapTrue, newSizeVHD = 101 \<rparr>"

section \<open>The SR object\<close>

text \<open>
  The state of an \<^verbatim>\<open>SR\<close> object. \<open>objs\<close> is the heap: it gives the VDI object behind each
  reference. \<open>vdis\<close> is the dictionary \<^verbatim>\<open>self.vdis\<close> from UUIDs to VDI objects, in insertion
  order (the order in which Python iterates over it). \<open>journal\<close> is what the journaler
  holds: entries keyed by type and identifier, in the order \<^verbatim>\<open>getAll\<close> lists them.
  \<open>other_config\<close> is \<^verbatim>\<open>self.xapi.srRecord["other_config"]\<close>.
\<close>

record sr =
  objs :: "oid \<Rightarrow> vdi"
  vdis :: "(string \<times> oid) list"
  vdiTrees :: "oid list"
  journal :: "((string \<times> string) \<times> string) list"
  failedCoalesceTargets :: "oid list"
  no_space_candidates :: "(string \<times> oid) list"
  other_config :: "string \<rightharpoonup> string"

definition JRN_RELINK :: string where "JRN_RELINK = ''relink''"
definition JRN_COALESCE :: string where "JRN_COALESCE = ''coalesce''"
definition TMP_RENAME_PREFIX :: string where "TMP_RENAME_PREFIX = ''OLD_''"

text \<open>\<^verbatim>\<open>SR.getVDI\<close>: \<^verbatim>\<open>self.vdis.get(uuid)\<close>.\<close>

definition getVDI :: "sr \<Rightarrow> string \<Rightarrow> oid option" where
  "getVDI self u = map_of (vdis self) u"

text \<open>
  The journaler: \<^verbatim>\<open>get(type, id)\<close> gives the value of an entry or \<^verbatim>\<open>None\<close>,
  \<^verbatim>\<open>getAll(type)\<close> the entries of one type, \<^verbatim>\<open>create\<close> adds an entry and \<^verbatim>\<open>remove\<close>
  deletes one. \<open>journal_has\<close> is the test \<^verbatim>\<open>if journaler.get(type, id):\<close>, which holds for
  an entry with a non-empty value.
\<close>

definition journal_get :: "sr \<Rightarrow> string \<Rightarrow> string \<Rightarrow> string option" where
  "journal_get self t u = map_of (journal self) (t, u)"

definition journal_has :: "sr \<Rightarrow> string \<Rightarrow> string \<Rightarrow> bool" where
  "journal_has self t u =
     (case journal_get self t u of None \<Rightarrow> False | Some val \<Rightarrow> val \<noteq> [])"

definition journal_getAll :: "sr \<Rightarrow> string \<Rightarrow> (string \<times> string) list" where
  "journal_getAll self t =
     map (\<lambda>((t', u), val). (u, val)) (filter (\<lambda>((t', u), val). t' = t) (journal self))"

definition journal_create :: "sr \<Rightarrow> string \<Rightarrow> string \<Rightarrow> string \<Rightarrow> sr" where
  "journal_create self t u val = self\<lparr>journal := AList.update (t, u) val (journal self)\<rparr>"

definition journal_remove :: "sr \<Rightarrow> string \<Rightarrow> string \<Rightarrow> sr" where
  "journal_remove self t u = self\<lparr>journal := AList.delete (t, u) (journal self)\<rparr>"

subsection \<open>Coalesceable and leaf-coalesceable VDIs\<close>

text \<open>
  \<^verbatim>\<open>VDI.isCoalesceable\<close> and \<^verbatim>\<open>VDI.isLeafCoalesceable\<close>, for the VDI object behind the
  reference \<open>v\<close>. \<^verbatim>\<open>self.parent\<close> is true when the object has a parent.
\<close>

definition isCoalesceable :: "sr \<Rightarrow> oid \<Rightarrow> bool" where
  "isCoalesceable s v =
     (let self = objs s v
      in \<not> scanError self \<and>
         (case parent self of
            None \<Rightarrow> False
          | Some p \<Rightarrow> length (children (objs s p)) = 1) \<and>
         hidden self \<and>
         length (children self) > 0)"

definition isLeafCoalesceable :: "sr \<Rightarrow> oid \<Rightarrow> bool" where
  "isLeafCoalesceable s v =
     (let self = objs s v
      in \<not> scanError self \<and>
         (case parent self of
            None \<Rightarrow> False
          | Some p \<Rightarrow> length (children (objs s p)) = 1) \<and>
         \<not> hidden self \<and>
         length (children self) = 0)"

subsection \<open>Garbage\<close>

text \<open>
  \<^verbatim>\<open>VDI.getAllPrunable\<close> calls itself on the children. Python bounds the depth of nested
  calls and raises \<^verbatim>\<open>RecursionError\<close> beyond it; \<open>depth\<close> is the number of nested calls
  still allowed. \<open>prunable_children\<close> is the loop over \<^verbatim>\<open>self.children\<close>, with the recursive
  call as its first argument; \<^verbatim>\<open>child not in childList\<close> compares references.
\<close>

fun prunable_children ::
    "(oid \<Rightarrow> error + oid list) \<Rightarrow> oid list \<Rightarrow> bool \<Rightarrow> oid list \<Rightarrow> error + (bool \<times> oid list)" where
  "prunable_children f [] thisPrunable vdiList = Inr (thisPrunable, vdiList)"
| "prunable_children f (child # rest) thisPrunable vdiList =
     (case f child of
        Inl e \<Rightarrow> Inl e
      | Inr childList \<Rightarrow>
          prunable_children f rest
            (if child \<notin> set childList then False else thisPrunable)
            (vdiList @ childList))"

primrec getAllPrunable :: "nat \<Rightarrow> sr \<Rightarrow> oid \<Rightarrow> error + oid list" where
  "getAllPrunable 0 s v = Inl RecursionError"
| "getAllPrunable (Suc depth) s v =
     (let self = objs s v
      in if length (children self) = 0 then
           (if journal_has s JRN_RELINK (uuid self) then Inr []
            else if \<not> scanError self \<and> hidden self then Inr [v]
            else Inr [])
         else
           (case prunable_children (getAllPrunable depth s) (children self) True [] of
              Inl e \<Rightarrow> Inl e
            | Inr (thisPrunable, vdiList) \<Rightarrow>
                if \<not> scanError self \<and> thisPrunable then Inr (vdiList @ [v])
                else Inr vdiList))"

text \<open>\<^verbatim>\<open>SR.findGarbage\<close>: the prunable VDIs of every tree.\<close>

fun findGarbage_loop ::
    "(oid \<Rightarrow> error + oid list) \<Rightarrow> oid list \<Rightarrow> oid list \<Rightarrow> error + oid list" where
  "findGarbage_loop f [] vdiList = Inr vdiList"
| "findGarbage_loop f (vdi # rest) vdiList =
     (case f vdi of
        Inl e \<Rightarrow> Inl e
      | Inr prunable \<Rightarrow> findGarbage_loop f rest (vdiList @ prunable))"

definition findGarbage :: "nat \<Rightarrow> sr \<Rightarrow> error + oid list" where
  "findGarbage depth s = findGarbage_loop (getAllPrunable depth s) (vdiTrees s) []"

subsection \<open>Rebuilding the trees after a scan\<close>

text \<open>
  \<^verbatim>\<open>SR._buildTree(force)\<close>. The loop runs over \<^verbatim>\<open>self.vdis.values()\<close>; it sets the
  \<open>parent\<close> of a VDI whose \<open>parentUuid\<close> resolves, appends the VDI to the parent's
  \<open>children\<close>, and appends the other VDIs to \<open>vdiTrees\<close>, or raises. The result is
  \<open>Inr ()\<close> or the exception, and the SR object as the loop has left it.
\<close>

definition set_parent_link :: "sr \<Rightarrow> oid \<Rightarrow> oid \<Rightarrow> sr" where
  "set_parent_link s vdi p =
     (let h = objs s;
          h = h(vdi := (h vdi)\<lparr>parent := Some p\<rparr>);
          h = h(p := (h p)\<lparr>children := children (h p) @ [vdi]\<rparr>)
      in s\<lparr>objs := h\<rparr>)"

fun buildTree_loop :: "bool \<Rightarrow> oid list \<Rightarrow> sr \<Rightarrow> (error + unit) \<times> sr" where
  "buildTree_loop force [] s = (Inr (), s)"
| "buildTree_loop force (vdi # rest) s =
     (if parentUuid (objs s vdi) \<noteq> [] then
        (case getVDI s (parentUuid (objs s vdi)) of
           None \<Rightarrow>
             if prefix TMP_RENAME_PREFIX (uuid (objs s vdi)) then
               buildTree_loop force rest (s\<lparr>vdiTrees := vdiTrees s @ [vdi]\<rparr>)
             else if force then
               buildTree_loop force rest (s\<lparr>vdiTrees := vdiTrees s @ [vdi]\<rparr>)
             else (Inl SMException, s)
         | Some p \<Rightarrow> buildTree_loop force rest (set_parent_link s vdi p))
      else buildTree_loop force rest (s\<lparr>vdiTrees := vdiTrees s @ [vdi]\<rparr>))"

definition buildTree :: "bool \<Rightarrow> sr \<Rightarrow> (error + unit) \<times> sr" where
  "buildTree force s = buildTree_loop force (map snd (vdis s)) (s\<lparr>vdiTrees := []\<rparr>)"

text \<open>
  A VDI whose non-empty \<open>parentUuid\<close> does not resolve to a VDI of the SR, and a VDI
  that \<^verbatim>\<open>_buildTree\<close> makes a root when it does not raise.
\<close>

definition unresolved :: "sr \<Rightarrow> oid \<Rightarrow> bool" where
  "unresolved s v =
     (parentUuid (objs s v) \<noteq> [] \<and> getVDI s (parentUuid (objs s v)) = None)"

definition becomes_root :: "sr \<Rightarrow> oid \<Rightarrow> bool" where
  "becomes_root s v = (parentUuid (objs s v) = [] \<or> unresolved s v)"

text \<open>
  One round of the loop of \<^verbatim>\<open>_buildTree\<close> when it does not raise, and the relation between
  two states of the SR that hold the same dictionary \<open>vdis\<close> and the same \<open>uuid\<close> and
  \<open>parentUuid\<close> in every VDI object (the loop changes neither).
\<close>

definition buildTree_step :: "sr \<Rightarrow> oid \<Rightarrow> sr" where
  "buildTree_step s vdi =
     (if becomes_root s vdi then s\<lparr>vdiTrees := vdiTrees s @ [vdi]\<rparr>
      else set_parent_link s vdi (the (getVDI s (parentUuid (objs s vdi)))))"

definition same_names :: "sr \<Rightarrow> sr \<Rightarrow> bool" where
  "same_names s s' =
     (vdis s' = vdis s \<and>
      (\<forall>v. uuid (objs s' v) = uuid (objs s v) \<and> parentUuid (objs s' v) = parentUuid (objs s v)))"

text \<open>A VDI that is not a visible leaf: it is hidden or has a child.\<close>

definition not_visible_leaf :: "sr \<Rightarrow> oid \<Rightarrow> bool" where
  "not_visible_leaf s v = (hidden (objs s v) \<or> length (children (objs s v)) \<noteq> 0)"

subsection \<open>Example states\<close>

text \<open>
  A VDI object as \<^verbatim>\<open>VDI.__init__\<close> leaves it, and an SR with no VDI. \<open>chain_sr\<close> is the
  scanned state of an SR with one tree: the hidden root \<open>R\<close>, its hidden child \<open>A\<close> and the
  hidden leaf \<open>B\<close> below \<open>A\<close>. \<open>residue_sr\<close> and \<open>orphan_sr\<close> are states before
  \<^verbatim>\<open>_buildTree\<close>: in both, the parent of the second VDI is not in the SR.
\<close>

definition blank_vdi :: vdi where
  "blank_vdi =
     \<lparr> uuid = [], raw = False, scanError = True, path = [], parentUuid = [],
       sizeVirt = - 1, sizeVHD = - 1, sizeAllocated = - 1, hidden = False, parent = None,
       children = [], config = Map.empty \<rparr>"

definition empty_sr :: sr where
  "empty_sr =
     \<lparr> objs = (\<lambda>v. blank_vdi), vdis = [], vdiTrees = [], journal = [],
       failedCoalesceTargets = [], no_space_candidates = [], other_config = Map.empty \<rparr>"

definition chain_objs :: "oid \<Rightarrow> vdi" where
  "chain_objs = (\<lambda>v. blank_vdi)
     (0 := blank_vdi\<lparr>uuid := ''R'', scanError := False, hidden := True, children := [1]\<rparr>,
      1 := blank_vdi\<lparr>uuid := ''A'', scanError := False, hidden := True, parentUuid := ''R'',
             parent := Some 0, children := [2]\<rparr>,
      2 := blank_vdi\<lparr>uuid := ''B'', scanError := False, hidden := True, parentUuid := ''A'',
             parent := Some 1\<rparr>)"

definition chain_sr :: sr where
  "chain_sr = empty_sr\<lparr>objs := chain_objs, vdis := [(''R'', 0), (''A'', 1), (''B'', 2)],
     vdiTrees := [0]\<rparr>"

definition residue_sr :: sr where
  "residue_sr = empty_sr
     \<lparr>objs := (\<lambda>v. blank_vdi)
        (0 := blank_vdi\<lparr>uuid := ''a'', scanError := False\<rparr>,
         1 := blank_vdi\<lparr>uuid := ''OLD_b'', scanError := False, parentUuid := ''gone''\<rparr>,
         2 := blank_vdi\<lparr>uuid := ''c'', scanError := False, parentUuid := ''a''\<rparr>),
      vdis := [(''a'', 0), (''OLD_b'', 1), (''c'', 2)]\<rparr>"

definition orphan_sr :: sr where
  "orphan_sr = empty_sr
     \<lparr>objs := (\<lambda>v. blank_vdi)
        (0 := blank_vdi\<lparr>uuid := ''a'', scanError := False\<rparr>,
         1 := blank_vdi\<lparr>uuid := ''b'', scanError := False, parentUuid := ''gone''\<rparr>),
      vdis := [(''a'', 0), (''b'', 1)]\<rparr>"

section \<open>SR.pauseVDIs and SR.unpauseVDIs\<close>

text \<open>
  Modelled from the spec: the per-tap-disk pause and unpause mechanism
  (\<^verbatim>\<open>blktap2.VDI.tap_pause\<close>, \<^verbatim>\<open>tap_unpause\<close>), which is not part of the sources at hand. The
  tap-disks hold the set of UUIDs of the paused VDIs and a log of the calls they
  received. Whether a call succeeds is decided outside the program: \<open>pause_fails\<close> and
  \<open>unpause_fails\<close> say for which UUIDs \<^verbatim>\<open>tap_pause\<close> and \<^verbatim>\<open>tap_unpause\<close> return false. A call
  that fails leaves the set of paused VDIs as it was.
\<close>

datatype tap_call = TapPause string | TapUnpause string

record tapdisks =
  paused :: "string set"
  calls :: "tap_call list"

record tap_env =
  pause_fails :: "string \<Rightarrow> bool"
  unpause_fails :: "string \<Rightarrow> bool"

definition tap_pause :: "tap_env \<Rightarrow> tapdisks \<Rightarrow> string \<Rightarrow> bool \<times> tapdisks" where
  "tap_pause env t u =
     (let t = t\<lparr>calls := calls t @ [TapPause u]\<rparr>
      in if pause_fails env u then (False, t) else (True, t\<lparr>paused := insert u (paused t)\<rparr>))"

definition tap_unpause :: "tap_env \<Rightarrow> tapdisks \<Rightarrow> string \<Rightarrow> bool \<times> tapdisks" where
  "tap_unpause env t u =
     (let t = t\<lparr>calls := calls t @ [TapUnpause u]\<rparr>
      in if unpause_fails env u then (False, t) else (True, t\<lparr>paused := paused t - {u}\<rparr>))"

text \<open>
  \<^verbatim>\<open>VDI.pause\<close> and \<^verbatim>\<open>VDI.unpause\<close> raise \<^verbatim>\<open>SMException\<close> when the tap-disk call returns
  false. The tap-disks keep their state when an exception is raised, so the methods
  return it in both cases.
\<close>

definition vdi_pause :: "tap_env \<Rightarrow> tapdisks \<Rightarrow> vdi \<Rightarrow> (error + unit) \<times> tapdisks" where
  "vdi_pause env t self =
     (case tap_pause env t (uuid self) of
        (ok, t) \<Rightarrow> if \<not> ok then (Inl SMException, t) else (Inr (), t))"

definition vdi_unpause :: "tap_env \<Rightarrow> tapdisks \<Rightarrow> vdi \<Rightarrow> (error + unit) \<times> tapdisks" where
  "vdi_unpause env t self =
     (case tap_unpause env t (uuid self) of
        (ok, t) \<Rightarrow> if \<not> ok then (Inl SMException, t) else (Inr (), t))"

text \<open>
  \<^verbatim>\<open>SR.unpauseVDIs\<close>: the loop goes on after a failure and remembers it in \<open>failed\<close>.
\<close>

fun unpauseVDIs_loop :: "tap_env \<Rightarrow> vdi list \<Rightarrow> bool \<Rightarrow> tapdisks \<Rightarrow> bool \<times> tapdisks" where
  "unpauseVDIs_loop env [] failed t = (failed, t)"
| "unpauseVDIs_loop env (vdi # rest) failed t =
     (case vdi_unpause env t vdi of
        (Inr u, t) \<Rightarrow> unpauseVDIs_loop env rest failed t
      | (Inl e, t) \<Rightarrow> unpauseVDIs_loop env rest True t)"

definition unpauseVDIs :: "tap_env \<Rightarrow> tapdisks \<Rightarrow> vdi list \<Rightarrow> (error + unit) \<times> tapdisks" where
  "unpauseVDIs env t vdiList =
     (case unpauseVDIs_loop env vdiList False t of
        (failed, t) \<Rightarrow> if failed then (Inl SMException, t) else (Inr (), t))"

text \<open>
  \<^verbatim>\<open>SR.pauseVDIs\<close>: the loop stops at the first failure (\<^verbatim>\<open>break\<close>); \<open>paused_list\<close> is the
  local list \<^verbatim>\<open>paused\<close>.
\<close>

fun pauseVDIs_loop ::
    "tap_env \<Rightarrow> vdi list \<Rightarrow> vdi list \<Rightarrow> tapdisks \<Rightarrow> bool \<times> vdi list \<times> tapdisks" where
  "pauseVDIs_loop env [] paused_list t = (False, paused_list, t)"
| "pauseVDIs_loop env (vdi # rest) paused_list t =
     (case vdi_pause env t vdi of
        (Inr u, t) \<Rightarrow> pauseVDIs_loop env rest (paused_list @ [vdi]) t
      | (Inl e, t) \<Rightarrow> (True, paused_list, t))"

definition pauseVDIs :: "tap_env \<Rightarrow> tapdisks \<Rightarrow> vdi list \<Rightarrow> (error + unit) \<times> tapdisks" where
  "pauseVDIs env t vdiList =
     (case pauseVDIs_loop env vdiList [] t of
        (failed, paused_list, t) \<Rightarrow>
          if failed then
            (case unpauseVDIs env t paused_list of
               (Inl e, t) \<Rightarrow> (Inl e, t)
             | (Inr u, t) \<Rightarrow> (Inl SMException, t))
          else (Inr (), t))"

text \<open>
  Tap-disks with no paused VDI; an environment in which pausing \<open>b\<close> fails and
  unpausing \<open>a\<close> fails; and one in which only pausing \<open>b\<close> fails.
\<close>

definition idle_tapdisks :: tapdisks where
  "idle_tapdisks = \<lparr> paused = {}, calls = [] \<rparr>"

definition stuck_tap_env :: tap_env where
  "stuck_tap_env = \<lparr> pause_fails = (\<lambda>u. u = ''b''), unpause_fails = (\<lambda>u. u = ''a'') \<rparr>"

definition b_fails_tap_env :: tap_env where
  "b_fails_tap_env = \<lparr> pause_fails = (\<lambda>u. u = ''b''), unpause_fails = (\<lambda>u. False) \<rparr>"

definition vdi_a :: vdi where "vdi_a = blank_vdi\<lparr>uuid := ''a''\<rparr>"
definition vdi_b :: vdi where "vdi_b = blank_vdi\<lparr>uuid := ''b''\<rparr>"
definition vdi_c :: vdi where "vdi_c = blank_vdi\<lparr>uuid := ''c''\<rparr>"

section \<open>SR.findCoalesceable\<close>

text \<open>
  The VHD utility module \<^verbatim>\<open>vhdutil\<close> is not part of the sources at hand. What the modelled
  code uses of it is taken as a parameter: the constant \<^verbatim>\<open>VHD_BLOCK_SIZE\<close>, the functions
  \<^verbatim>\<open>calcOverheadBitmap\<close> and \<^verbatim>\<open>calcOverheadEmpty\<close>, and the block bitmap of the VHD at a
  path, as \<^verbatim>\<open>VDI.getVHDBlocks\<close> returns it.
\<close>

record vhdutil =
  BLOCK_SIZE :: int
  calcOverheadBitmap :: "int \<Rightarrow> int"
  calcOverheadEmpty :: "int \<Rightarrow> int"
  getVHDBlocks :: "string \<Rightarrow> byte list"

text \<open>
  \<^verbatim>\<open>VDI._getCoalescedSizeData\<close> and \<^verbatim>\<open>VDI._calcExtraSpaceForCoalescing\<close> for the VDI object
  behind \<open>v\<close>. Reading \<^verbatim>\<open>self.parent\<close> of a VDI without parent gives \<^verbatim>\<open>None\<close>, and the method
  call on it raises \<^verbatim>\<open>AttributeError\<close>. The copy of the bitmap that \<^verbatim>\<open>getVHDBlocks\<close> stores
  in the configuration of the VDI is not modelled.
\<close>

definition VDI_getCoalescedSizeData :: "vhdutil \<Rightarrow> sr \<Rightarrow> oid \<Rightarrow> error + int" where
  "VDI_getCoalescedSizeData vh s v =
     (let self = objs s v
      in case parent self of
           None \<Rightarrow> Inl AttributeError
         | Some p \<Rightarrow>
             getCoalescedSizeData (BLOCK_SIZE vh) (getVHDBlocks vh (path self))
               (getVHDBlocks vh (path (objs s p))) (sizeVirt self))"

definition calcExtraSpaceForCoalescing :: "vhdutil \<Rightarrow> sr \<Rightarrow> oid \<Rightarrow> error + int" where
  "calcExtraSpaceForCoalescing vh s v =
     (let self = objs s v
      in case VDI_getCoalescedSizeData vh s v of
           Inl e \<Rightarrow> Inl e
         | Inr sizeData \<Rightarrow>
             (let sizeCoalesced = sizeData + calcOverheadBitmap vh sizeData
                    + calcOverheadEmpty vh (sizeVirt self)
              in case parent self of
                   None \<Rightarrow> Inl AttributeError
                 | Some p \<Rightarrow> Inr (sizeCoalesced - getSizeVHD (objs s p))))"

text \<open>
  \<^verbatim>\<open>VDI.getTreeRoot\<close> follows the parent references in a \<^verbatim>\<open>while\<close> loop, which does not end
  when they form a cycle: the result is an \<open>option\<close>. \<^verbatim>\<open>VDI.getTreeHeight\<close> is recursive;
  \<open>depth\<close> bounds the nested calls as in \<open>getAllPrunable\<close>.
\<close>

partial_function (option) getTreeRoot :: "sr \<Rightarrow> oid \<Rightarrow> oid option" where
  "getTreeRoot s r =
     (case parent (objs s r) of
        None \<Rightarrow> Some r
      | Some p \<Rightarrow> getTreeRoot s p)"

fun max_child_height :: "(oid \<Rightarrow> error + nat) \<Rightarrow> oid list \<Rightarrow> nat \<Rightarrow> error + nat" where
  "max_child_height f [] maxChildHeight = Inr maxChildHeight"
| "max_child_height f (child # rest) maxChildHeight =
     (case f child of
        Inl e \<Rightarrow> Inl e
      | Inr childHeight \<Rightarrow>
          max_child_height f rest
            (if childHeight > maxChildHeight then childHeight else maxChildHeight))"

primrec getTreeHeight :: "nat \<Rightarrow> sr \<Rightarrow> oid \<Rightarrow> error + nat" where
  "getTreeHeight 0 s v = Inl RecursionError"
| "getTreeHeight (Suc depth) s v =
     (if length (children (objs s v)) = 0 then Inr 1
      else case max_child_height (getTreeHeight depth s) (children (objs s v)) 0 of
             Inl e \<Rightarrow> Inl e
           | Inr maxChildHeight \<Rightarrow> Inr (maxChildHeight + 1))"

text \<open>
  What \<^verbatim>\<open>findCoalesceable\<close> returns: a VDI, \<^verbatim>\<open>None\<close>, or the (empty) list \<^verbatim>\<open>candidates\<close>.
\<close>

datatype found = FoundVDI oid | FoundNone | FoundList "oid list"

definition DB_COALESCE :: string where "DB_COALESCE = ''coalesce''"
definition DB_GC_NO_SPACE :: string where "DB_GC_NO_SPACE = ''gc_no_space''"

text \<open>
  The loop over the relink journal entries: the first entry whose VDI is in the SR and
  not among the failed targets is returned.
\<close>

fun relink_first :: "sr \<Rightarrow> string list \<Rightarrow> oid option" where
  "relink_first s [] = None"
| "relink_first s (u # journals) =
     (case getVDI s u of
        Some vdi \<Rightarrow>
          if vdi \<notin> set (failedCoalesceTargets s) then Some vdi else relink_first s journals
      | None \<Rightarrow> relink_first s journals)"

text \<open>
  The loop that files every candidate under the height of its tree, in the dictionary
  \<^verbatim>\<open>treeHeight\<close>.
\<close>

fun group_by_height ::
    "nat \<Rightarrow> sr \<Rightarrow> oid list \<Rightarrow> (nat \<times> oid list) list \<Rightarrow> (error + (nat \<times> oid list) list) option" where
  "group_by_height depth s [] treeHeight = Some (Inr treeHeight)"
| "group_by_height depth s (c # candidates) treeHeight =
     (case getTreeRoot s c of
        None \<Rightarrow> None
      | Some r \<Rightarrow>
          (case getTreeHeight depth s r of
             Inl e \<Rightarrow> Some (Inl e)
           | Inr height \<Rightarrow>
               group_by_height depth s candidates
                 (case map_of treeHeight height of
                    Some cs \<Rightarrow>
                      if cs \<noteq> [] then AList.update height (cs @ [c]) treeHeight
                      else AList.update height [c] treeHeight
                  | None \<Rightarrow> AList.update height [c] treeHeight)))"

text \<open>\<^verbatim>\<open>SR.clear_no_space_msg\<close>.\<close>

definition clear_no_space_msg :: "sr \<Rightarrow> oid \<Rightarrow> sr" where
  "clear_no_space_msg s vdi =
     (let msg_id = getConfig (objs s vdi) DB_GC_NO_SPACE;
          s = s\<lparr>no_space_candidates := AList.delete (uuid (objs s vdi)) (no_space_candidates s)\<rparr>
      in if msg_id \<noteq> None then
           s\<lparr>objs := (objs s)
              (vdi := (objs s vdi)\<lparr>config := (config (objs s vdi))(DB_GC_NO_SPACE := None)\<rparr>)\<rparr>
         else s)"

text \<open>
  The two nested loops over the heights, tallest first, and over the candidates of one
  height: the candidates in the order the loops visit them, and the loop body.
\<close>

definition by_falling_height :: "(nat \<times> oid list) list \<Rightarrow> oid list" where
  "by_falling_height treeHeight =
     concat (map (\<lambda>h. case map_of treeHeight h of None \<Rightarrow> [] | Some cs \<Rightarrow> cs)
       (rev (sort (map fst treeHeight))))"

fun space_loop :: "vhdutil \<Rightarrow> int \<Rightarrow> oid list \<Rightarrow> sr \<Rightarrow> error + (found \<times> sr)" where
  "space_loop vh freeSpace [] s = Inr (FoundNone, s)"
| "space_loop vh freeSpace (c # rest) s =
     (case calcExtraSpaceForCoalescing vh s c of
        Inl e \<Rightarrow> Inl e
      | Inr spaceNeeded \<Rightarrow>
          if spaceNeeded \<le> freeSpace then Inr (FoundVDI c, clear_no_space_msg s c)
          else space_loop vh freeSpace rest
                 (s\<lparr>no_space_candidates :=
                      AList.update (uuid (objs s c)) c (no_space_candidates s)\<rparr>))"

text \<open>
  \<^verbatim>\<open>SR.findCoalesceable\<close>. \<open>freeSpace\<close> is what \<^verbatim>\<open>self.getFreeSpace()\<close> returns during the
  call. The result is the returned value and the SR after the call, or an exception;
  \<open>None\<close> if the call does not return.
\<close>

definition findCoalesceable ::
    "vhdutil \<Rightarrow> int \<Rightarrow> nat \<Rightarrow> sr \<Rightarrow> (error + (found \<times> sr)) option" where
  "findCoalesceable vh freeSpace depth s =
     (let candidates = [];
          srSwitch = other_config s DB_COALESCE
      in if srSwitch = Some ''false'' then Some (Inr (FoundList candidates, s))
         else
           (case relink_first s (map fst (journal_getAll s JRN_RELINK)) of
              Some vdi \<Rightarrow> Some (Inr (FoundVDI vdi, s))
            | None \<Rightarrow>
                (let candidates =
                       filter (\<lambda>vdi. isCoalesceable s vdi \<and> vdi \<notin> set (failedCoalesceTargets s))
                         (map snd (vdis s))
                 in case group_by_height depth s candidates [] of
                      None \<Rightarrow> None
                    | Some (Inl e) \<Rightarrow> Some (Inl e)
                    | Some (Inr treeHeight) \<Rightarrow>
                        Some (space_loop vh freeSpace (by_falling_height treeHeight) s))))"

text \<open>
  An SR with the tree \<open>P\<close>, \<open>V\<close>, \<open>L\<close>: the hidden root \<open>P\<close>, its hidden child \<open>V\<close>, and the
  visible leaf \<open>L\<close> below \<open>V\<close>. Every VHD has one bitmap byte with one block set, blocks
  are 2 MiB, and the overheads are taken as zero. \<open>relink_sr\<close> is the same SR
  with a relink journal entry for \<open>V\<close>.
\<close>

definition pvl_objs :: "oid \<Rightarrow> vdi" where
  "pvl_objs = (\<lambda>v. blank_vdi)
     (10 := blank_vdi\<lparr>uuid := ''P'', path := ''P.vhd'', scanError := False, hidden := True,
             sizeVirt := 33554432, sizeVHD := 1048576, children := [11]\<rparr>,
      11 := blank_vdi\<lparr>uuid := ''V'', path := ''V.vhd'', scanError := False, hidden := True,
             sizeVirt := 33554432, sizeVHD := 1048576, parentUuid := ''P'', parent := Some 10,
             children := [12]\<rparr>,
      12 := blank_vdi\<lparr>uuid := ''L'', path := ''L.vhd'', scanError := False, hidden := False,
             sizeVirt := 33554432, sizeVHD := 1048576, parentUuid := ''V'', parent := Some 11\<rparr>)"

definition pvl_sr :: sr where
  "pvl_sr = empty_sr\<lparr>objs := pvl_objs, vdis := [(''P'', 10), (''V'', 11), (''L'', 12)],
     vdiTrees := [10]\<rparr>"

definition relink_sr :: sr where
  "relink_sr = pvl_sr\<lparr>journal := [((''relink'', ''V''), ''1'')]\<rparr>"

definition one_block_vhdutil :: vhdutil where
  "one_block_vhdutil =
     \<lparr> BLOCK_SIZE = 2097152, calcOverheadBitmap = (\<lambda>n. 0), calcOverheadEmpty = (\<lambda>n. 0),
       getVHDBlocks = (\<lambda>p. [1]) \<rparr>"

section \<open>SR._coalesce on a file-based SR\<close>

subsection \<open>Storage, tap-disks and the outside world\<close>

text \<open>
  The inline coalesce changes the SR object, the VHD files and the tap-disks. The model
  follows the file-based back-end (\<^verbatim>\<open>FileSR\<close>, \<^verbatim>\<open>FileVDI\<close>).

  Modelled from the spec: the VHD utility (\<^verbatim>\<open>vhdutil\<close>), which is not part of the sources
  at hand. \<^verbatim>\<open>getVHDInfo(path)\<close> gives the parent UUID, the three sizes and the hidden flag
  of a VHD; \<^verbatim>\<open>getAllVHDs\<close> gives this for every VHD of the SR, with a flag for a VHD that
  could not be read. A VHD file is named by the UUID of its VDI, so the storage is a
  dictionary from UUIDs to VHD headers, in the order in which \<^verbatim>\<open>getAllVHDs\<close> lists them,
  and the path of a VDI stands for the UUID in its file name. The raw files of the SR
  are listed by UUID.
\<close>

record vhdInfo =
  info_parentUuid :: string
  info_sizeVirt :: int
  info_sizePhys :: int
  info_sizeAllocated :: int
  info_hidden :: bool
  info_error :: bool

text \<open>
  The world: the SR object \<open>mem\<close>, the storage, the tap-disks, the first object
  identifier not yet used, and the counter \<^verbatim>\<open>self._locked\<close> of the SR lock.
\<close>

record world =
  mem :: sr
  disk :: "(string \<times> vhdInfo) list"
  raw_files :: "string list"
  taps :: tapdisks
  fresh :: oid
  locked :: nat

text \<open>
  What is decided outside the program is a parameter. \<open>fails\<close> says which calls to the
  outside fail: the VHD check, the resize, the VHD coalesce, the rewrite of a parent
  pointer, the refresh of a tap-disk, the check with the other hosts, and the removal
  of a VDI from the control plane. \<open>abort_flag\<close> is the abort flag of the SR,
  \<open>lock_busy\<close> says that another process holds the SR lock, \<open>mounted\<close> that the SR
  directory exists. \<open>maxResizeSize\<close> is \<^verbatim>\<open>vhdutil.getMaxResizeSize\<close> (in MiB);
  \<open>coalesced_sizePhys\<close> is the physical size of the parent after the coalesce of the VHD
  named. \<open>recover_leaf\<close> stands for the undo or finish of an interrupted leaf-coalesce
  (\<^verbatim>\<open>_undoInterruptedCoalesceLeaf\<close>, \<^verbatim>\<open>_finishInterruptedCoalesceLeaf\<close>), which is not
  modelled.
\<close>

datatype ext_call =
    Check string | Resize string | CoalesceVHD string | SetParent string
  | Refresh string | CheckSlaves string | ForgetVDI string

record env =
  fails :: "ext_call \<Rightarrow> bool"
  abort_flag :: bool
  lock_busy :: bool
  mounted :: bool
  maxResizeSize :: "string \<Rightarrow> int"
  coalesced_sizePhys :: "string \<Rightarrow> int"
  tap :: tap_env
  recover_leaf :: "string \<Rightarrow> string \<Rightarrow> world \<Rightarrow> (error + unit) \<times> world"

subsection \<open>Steps that change the world and may raise\<close>

text \<open>
  A step takes the world and gives a value or an exception, and the world after it: what
  a step has changed stays changed when it raises. \<open>and_then\<close> runs a second step
  after a first one that did not raise, \<open>try_finally\<close> is \<^verbatim>\<open>try: ... finally: ...\<close>, and
  \<open>for_each\<close> is a \<^verbatim>\<open>for\<close> loop over a list that the loop does not change.
\<close>

type_synonym 'a step = "world \<Rightarrow> (error + 'a) \<times> world"

definition ret :: "'a \<Rightarrow> 'a step" where
  "ret x w = (Inr x, w)"

definition throw :: "error \<Rightarrow> 'a step" where
  "throw e w = (Inl e, w)"

definition and_then :: "'a step \<Rightarrow> ('a \<Rightarrow> 'b step) \<Rightarrow> 'b step" where
  "and_then m f w = (case m w of (Inl e, w1) \<Rightarrow> (Inl e, w1) | (Inr x, w1) \<Rightarrow> f x w1)"

definition try_finally :: "'a step \<Rightarrow> unit step \<Rightarrow> 'a step" where
  "try_finally m cleanup w =
     (case m w of
        (r, w1) \<Rightarrow>
          (case cleanup w1 of
             (Inl e, w2) \<Rightarrow> (Inl e, w2)
           | (Inr u, w2) \<Rightarrow> (r, w2)))"

definition modify :: "(world \<Rightarrow> world) \<Rightarrow> unit step" where
  "modify f w = (Inr (), f w)"

fun for_each :: "'a list \<Rightarrow> ('a \<Rightarrow> unit step) \<Rightarrow> unit step" where
  "for_each [] body = ret ()"
| "for_each (x # xs) body = and_then (body x) (\<lambda>u. for_each xs body)"

text \<open>Reading and writing a VDI object, and the SR object.\<close>

definition obj :: "world \<Rightarrow> oid \<Rightarrow> vdi" where
  "obj w v = objs (mem w) v"

definition set_obj :: "oid \<Rightarrow> (vdi \<Rightarrow> vdi) \<Rightarrow> world \<Rightarrow> world" where
  "set_obj v f w = w\<lparr>mem := (mem w)\<lparr>objs := (objs (mem w))(v := f (objs (mem w) v))\<rparr>\<rparr>"

definition set_mem :: "(sr \<Rightarrow> sr) \<Rightarrow> world \<Rightarrow> world" where
  "set_mem f w = w\<lparr>mem := f (mem w)\<rparr>"

text \<open>
  \<^verbatim>\<open>SR.lock\<close> and \<^verbatim>\<open>SR.unlock\<close>. When another process holds the lock, \<^verbatim>\<open>lock\<close> gives up
  with \<^verbatim>\<open>AbortException\<close> if the abort flag is set and with \<^verbatim>\<open>SMException\<close> after its
  last attempt otherwise.
\<close>

definition sr_lock :: "env \<Rightarrow> unit step" where
  "sr_lock env w =
     (if locked w = 0 then
        (if \<not> lock_busy env then (Inr (), w\<lparr>locked := locked w + 1\<rparr>)
         else if abort_flag env then (Inl AbortException, w)
         else (Inl SMException, w))
      else (Inr (), w\<lparr>locked := locked w + 1\<rparr>))"

definition sr_unlock :: "unit step" where
  "sr_unlock w =
     (if locked w > 0 then (Inr (), w\<lparr>locked := locked w - 1\<rparr>) else (Inl AssertionError, w))"

text \<open>The journaler, as a step on the world.\<close>

definition journaler_create :: "string \<Rightarrow> string \<Rightarrow> string \<Rightarrow> unit step" where
  "journaler_create t u val = modify (set_mem (\<lambda>s. journal_create s t u val))"

definition journaler_remove :: "string \<Rightarrow> string \<Rightarrow> unit step" where
  "journaler_remove t u = modify (set_mem (\<lambda>s. journal_remove s t u))"

subsection \<open>The VHD utility on the storage\<close>

text \<open>
  Modelled from the spec. A call on a VHD that is not on the storage fails, and so does a
  call that \<open>fails\<close> names. \<^verbatim>\<open>setSizeVirtFast\<close> and \<^verbatim>\<open>setSizeVirt\<close> set the virtual size,
  \<^verbatim>\<open>setParent\<close> sets the parent pointer, \<^verbatim>\<open>coalesce\<close> copies the data into the parent, whose
  physical size changes, and \<^verbatim>\<open>os.unlink\<close> removes the file.
\<close>

definition on_disk :: "world \<Rightarrow> string \<Rightarrow> bool" where
  "on_disk w u = (map_of (disk w) u \<noteq> None)"

definition update_vhd :: "string \<Rightarrow> (vhdInfo \<Rightarrow> vhdInfo) \<Rightarrow> world \<Rightarrow> world" where
  "update_vhd u f w = w\<lparr>disk := map (\<lambda>(k, i). if k = u then (k, f i) else (k, i)) (disk w)\<rparr>"

definition vhd_check :: "env \<Rightarrow> string \<Rightarrow> bool step" where
  "vhd_check env u w = (Inr (on_disk w u \<and> \<not> fails env (Check u)), w)"

definition vhd_setSizeVirt :: "env \<Rightarrow> string \<Rightarrow> int \<Rightarrow> unit step" where
  "vhd_setSizeVirt env u sz w =
     (if on_disk w u \<and> \<not> fails env (Resize u)
      then (Inr (), update_vhd u (\<lambda>i. i\<lparr>info_sizeVirt := sz\<rparr>) w)
      else (Inl SMException, w))"

definition vhd_getSizeVirt :: "string \<Rightarrow> int step" where
  "vhd_getSizeVirt u w =
     (case map_of (disk w) u of
        None \<Rightarrow> (Inl SMException, w)
      | Some i \<Rightarrow> (Inr (info_sizeVirt i), w))"

definition vhd_setParent :: "env \<Rightarrow> string \<Rightarrow> string \<Rightarrow> unit step" where
  "vhd_setParent env u pu w =
     (if on_disk w u \<and> \<not> fails env (SetParent u)
      then (Inr (), update_vhd u (\<lambda>i. i\<lparr>info_parentUuid := pu\<rparr>) w)
      else (Inl SMException, w))"

definition vhd_coalesce :: "env \<Rightarrow> string \<Rightarrow> unit step" where
  "vhd_coalesce env u w =
     (case map_of (disk w) u of
        None \<Rightarrow> (Inl SMException, w)
      | Some i \<Rightarrow>
          if on_disk w (info_parentUuid i) \<and> \<not> fails env (CoalesceVHD u)
          then (Inr (), update_vhd (info_parentUuid i)
                  (\<lambda>i. i\<lparr>info_sizePhys := coalesced_sizePhys env u\<rparr>) w)
          else (Inl SMException, w))"

definition os_unlink :: "string \<Rightarrow> unit step" where
  "os_unlink u w =
     (if on_disk w u then (Inr (), w\<lparr>disk := filter (\<lambda>(k, i). k \<noteq> u) (disk w)\<rparr>)
      else (Inl SMException, w))"

subsection \<open>Methods of the VDI objects\<close>

definition DB_VHD_PARENT :: string where "DB_VHD_PARENT = ''vhd-parent''"
definition DB_VDI_RELINKING :: string where "DB_VDI_RELINKING = ''relinking''"
definition DB_VDI_ACTIVATING :: string where "DB_VDI_ACTIVATING = ''activating''"
definition DB_VDI_PAUSED :: string where "DB_VDI_PAUSED = ''paused''"
definition JRN_LEAF :: string where "JRN_LEAF = ''leaf''"

text \<open>
  \<^verbatim>\<open>VDI.setConfig\<close> and \<^verbatim>\<open>VDI.delConfig\<close>; calls to the control plane are not modelled as
  failing.
\<close>

definition setConfig :: "oid \<Rightarrow> string \<Rightarrow> string \<Rightarrow> world \<Rightarrow> world" where
  "setConfig v key val = set_obj v (\<lambda>x. x\<lparr>config := (config x)(key \<mapsto> val)\<rparr>)"

definition delConfig :: "oid \<Rightarrow> string \<Rightarrow> world \<Rightarrow> world" where
  "delConfig v key = set_obj v (\<lambda>x. x\<lparr>config := (config x)(key := None)\<rparr>)"

text \<open>
  \<open>with_parent v f\<close> is a call \<^verbatim>\<open>self.parent.f(...)\<close>: on a VDI without parent it raises
  \<^verbatim>\<open>AttributeError\<close>.
\<close>

definition with_parent :: "oid \<Rightarrow> (oid \<Rightarrow> 'a step) \<Rightarrow> 'a step" where
  "with_parent v f w =
     (case parent (obj w v) of None \<Rightarrow> (Inl AttributeError, w) | Some p \<Rightarrow> f p w)"

text \<open>
  \<^verbatim>\<open>self.path\<close>. \<^verbatim>\<open>VDI.__init__\<close> sets no path: an object that was never loaded (on a
  file-based SR, the object of a raw file) has no such attribute, and reading it raises
  \<^verbatim>\<open>AttributeError\<close>. \<^verbatim>\<open>FileVDI.load\<close> sets the path from the UUID, and \<^verbatim>\<open>_clear\<close>
  empties it. The record holds the empty string in both cases, and the model raises
  \<^verbatim>\<open>AttributeError\<close> for both (with the empty path the source raises the exception of
  the call that was given it). For any other path the file is named by the UUID.
\<close>

definition vdi_file :: "oid \<Rightarrow> string step" where
  "vdi_file v w =
     (if path (obj w v) = [] then (Inl AttributeError, w) else (Inr (uuid (obj w v)), w))"

text \<open>\<^verbatim>\<open>VDI.validate\<close>.\<close>

definition VDI_validate :: "env \<Rightarrow> oid \<Rightarrow> unit step" where
  "VDI_validate env v =
     and_then (vdi_file v) (\<lambda>f.
     and_then (vhd_check env f)
       (\<lambda>ok. if \<not> ok then throw SMException else ret ()))"

text \<open>\<^verbatim>\<open>VDI._getAllSubtree\<close>, recursive, with the bound \<open>depth\<close> on nested calls.\<close>

fun subtree_children ::
    "(oid \<Rightarrow> error + oid list) \<Rightarrow> oid list \<Rightarrow> oid list \<Rightarrow> error + oid list" where
  "subtree_children f [] vdiList = Inr vdiList"
| "subtree_children f (child # rest) vdiList =
     (case f child of
        Inl e \<Rightarrow> Inl e
      | Inr sub \<Rightarrow> subtree_children f rest (vdiList @ sub))"

primrec getAllSubtree :: "nat \<Rightarrow> sr \<Rightarrow> oid \<Rightarrow> error + oid list" where
  "getAllSubtree 0 s v = Inl RecursionError"
| "getAllSubtree (Suc depth) s v =
     subtree_children (getAllSubtree depth s) (children (objs s v)) [v]"

text \<open>\<^verbatim>\<open>SR.pauseVDIs\<close> and \<^verbatim>\<open>SR.unpauseVDIs\<close> as steps on the world.\<close>

definition SR_pauseVDIs :: "env \<Rightarrow> oid list \<Rightarrow> unit step" where
  "SR_pauseVDIs env vdiList w =
     (case pauseVDIs (tap env) (taps w) (map (obj w) vdiList) of
        (r, t) \<Rightarrow> (r, w\<lparr>taps := t\<rparr>))"

definition SR_unpauseVDIs :: "env \<Rightarrow> oid list \<Rightarrow> unit step" where
  "SR_unpauseVDIs env vdiList w =
     (case unpauseVDIs (tap env) (taps w) (map (obj w) vdiList) of
        (r, t) \<Rightarrow> (r, w\<lparr>taps := t\<rparr>))"

text \<open>
  \<^verbatim>\<open>VDI._setSizeVirt\<close> and \<^verbatim>\<open>VDI._increaseSizeVirt(size, atomic)\<close>.
\<close>

definition VDI_setSizeVirt :: "env \<Rightarrow> oid \<Rightarrow> int \<Rightarrow> unit step" where
  "VDI_setSizeVirt env v sz = and_then (vdi_file v) (\<lambda>f. vhd_setSizeVirt env f sz)"

definition resize_atomic :: "env \<Rightarrow> nat \<Rightarrow> oid \<Rightarrow> int \<Rightarrow> unit step" where
  "resize_atomic env depth v sz w =
     (case getAllSubtree depth (mem w) v of
        Inl e \<Rightarrow> (Inl e, w)
      | Inr vdiList \<Rightarrow>
          and_then (sr_lock env)
            (\<lambda>u. try_finally
               (and_then (SR_pauseVDIs env vdiList)
                  (\<lambda>u. try_finally (VDI_setSizeVirt env v sz)
                         (SR_unpauseVDIs env vdiList)))
               sr_unlock) w)"

definition increaseSizeVirt :: "env \<Rightarrow> nat \<Rightarrow> oid \<Rightarrow> int \<Rightarrow> bool \<Rightarrow> unit step" where
  "increaseSizeVirt env depth v sz atomic w =
     (if sizeVirt (obj w v) \<ge> sz then ret () w
      else
        and_then (vdi_file v) (\<lambda>f.
        and_then
          (if sz \<le> maxResizeSize env f * 1024 * 1024 then vhd_setSizeVirt env f sz
           else if atomic then resize_atomic env depth v sz
           else VDI_setSizeVirt env v sz) (\<lambda>u.
        and_then (vdi_file v) (\<lambda>f.
        and_then (vhd_getSizeVirt f)
          (\<lambda>new. modify (set_obj v (\<lambda>x. x\<lparr>sizeVirt := new\<rparr>)))))) w)"

text \<open>
  \<^verbatim>\<open>VDI._coalesceVHD\<close>: the VHD coalesce runs in a child process under the abort
  watchdog; it is taken to end at once with \<^verbatim>\<open>AbortException\<close> when the abort flag is set.
  Whatever the child process raises reaches the caller as \<^verbatim>\<open>SMException\<close>.
\<close>

definition coalesceVHD :: "env \<Rightarrow> oid \<Rightarrow> unit step" where
  "coalesceVHD env v w =
     (if abort_flag env then (Inl AbortException, w)
      else if path (obj w v) = [] then (Inl SMException, w)
      else vhd_coalesce env (uuid (obj w v)) w)"

text \<open>
  \<^verbatim>\<open>VDI._doCoalesce\<close>. \<^verbatim>\<open>_updateSlavesOnResize\<close> does nothing on a file-based SR, and the
  cache of the block bitmap that \<^verbatim>\<open>updateBlockInfo\<close> refreshes is not modelled.
\<close>

definition doCoalesce :: "env \<Rightarrow> nat \<Rightarrow> oid \<Rightarrow> unit step" where
  "doCoalesce env depth v =
     and_then (VDI_validate env v) (\<lambda>u.
     and_then (with_parent v (VDI_validate env)) (\<lambda>u.
     and_then (with_parent v (\<lambda>p w. increaseSizeVirt env depth p (sizeVirt (obj w v)) True w)) (\<lambda>u.
     and_then (coalesceVHD env v) (\<lambda>u.
     with_parent v (VDI_validate env)))))"

text \<open>
  \<^verbatim>\<open>VDI._tagChildrenForRelink\<close>. The configuration does not change while the method waits,
  so a leaf that is activating makes it raise after its last retry.
\<close>

definition tag_leaf :: "oid \<Rightarrow> unit step" where
  "tag_leaf v w =
     (if getConfig (obj w v) DB_VDI_ACTIVATING \<noteq> None then (Inl SMException, w)
      else (Inr (), setConfig v DB_VDI_RELINKING ''True'' w))"

primrec tagChildrenForRelink :: "nat \<Rightarrow> oid \<Rightarrow> unit step" where
  "tagChildrenForRelink 0 v = throw RecursionError"
| "tagChildrenForRelink (Suc depth) v =
     (\<lambda>w. if length (children (obj w v)) = 0 then tag_leaf v w
          else for_each (children (obj w v)) (tagChildrenForRelink depth) w)"

text \<open>
  \<^verbatim>\<open>VDI._setParent\<close> and \<^verbatim>\<open>VDI._relinkSkip\<close>. The loop of \<^verbatim>\<open>_relinkSkip\<close> runs over
  \<^verbatim>\<open>self.children\<close>, and \<^verbatim>\<open>_setParent\<close> appends the child to the children of
  \<^verbatim>\<open>self.parent\<close>. When the VDI is its own parent, this is the list the loop runs over:
  the loop then never reaches the end of the list, and \<^verbatim>\<open>_relinkSkip\<close> does not return
  unless a round raises. Its result is therefore an \<open>option\<close>.
\<close>

definition link_child :: "oid \<Rightarrow> oid \<Rightarrow> world \<Rightarrow> world" where
  "link_child child p w =
     (let w = set_obj child (\<lambda>x. x\<lparr>parent := Some p, parentUuid := uuid (obj w p)\<rparr>) w;
          w = set_obj p (\<lambda>x. x\<lparr>children := children x @ [child]\<rparr>) w
      in setConfig child DB_VHD_PARENT (parentUuid (obj w child)) w)"

definition setParent :: "env \<Rightarrow> oid \<Rightarrow> oid \<Rightarrow> unit step" where
  "setParent env child p =
     and_then (vdi_file child) (\<lambda>f.
     and_then (vdi_file p) (\<lambda>pf.
     and_then (vhd_setParent env f pf) (\<lambda>u.
     modify (link_child child p))))"

definition relink_round :: "env \<Rightarrow> oid \<Rightarrow> oid \<Rightarrow> unit step" where
  "relink_round env v child =
     (if abort_flag env then throw AbortException
      else with_parent v (setParent env child))"

definition relinkSkip :: "env \<Rightarrow> oid \<Rightarrow> world \<Rightarrow> ((error + unit) \<times> world) option" where
  "relinkSkip env v w =
     (case for_each (children (obj w v)) (relink_round env v) w of
        (Inl e, w1) \<Rightarrow> Some (Inl e, w1)
      | (Inr u, w1) \<Rightarrow>
          if parent (obj w v) = Some v \<and> children (obj w v) \<noteq> [] then None
          else Some (Inr (), set_obj v (\<lambda>x. x\<lparr>children := []\<rparr>) w1))"

text \<open>\<^verbatim>\<open>VDI.refresh\<close>, \<^verbatim>\<open>VDI._reload\<close> and \<^verbatim>\<open>VDI._reloadChildren\<close>.\<close>

definition refresh :: "env \<Rightarrow> oid \<Rightarrow> unit step" where
  "refresh env v =
     and_then (sr_lock env)
       (\<lambda>u. try_finally
          (\<lambda>w. if fails env (Refresh (uuid (obj w v))) then (Inl SMException, w) else (Inr (), w))
          sr_unlock)"

primrec reload :: "env \<Rightarrow> nat \<Rightarrow> oid \<Rightarrow> unit step" where
  "reload env 0 v = throw RecursionError"
| "reload env (Suc depth) v =
     (\<lambda>w. and_then (for_each (children (obj w v)) (reload env depth))
            (\<lambda>u w. if length (children (obj w v)) = 0
                   then and_then (modify (delConfig v DB_VDI_RELINKING)) (\<lambda>u. refresh env v) w
                   else ret () w) w)"

definition reloadChildren :: "env \<Rightarrow> nat \<Rightarrow> oid \<Rightarrow> oid \<Rightarrow> unit step" where
  "reloadChildren env depth v vdiSkip w =
     for_each (children (obj w v))
       (\<lambda>child. if child = vdiSkip then ret ()
                else if abort_flag env then throw AbortException
                else reload env depth child) w"

subsection \<open>FileSR.scan\<close>

text \<open>
  \<open>register_vdi\<close> is \<^verbatim>\<open>vdi = self.getVDI(uuid)\<close> followed, when there is no such VDI, by the
  creation of a \<^verbatim>\<open>FileVDI\<close> object and its entry in \<^verbatim>\<open>self.vdis\<close>. \<open>FileVDI_load\<close> is
  \<^verbatim>\<open>FileVDI.load(info)\<close>.
\<close>

definition register_vdi :: "string \<Rightarrow> bool \<Rightarrow> oid step" where
  "register_vdi u r w =
     (case getVDI (mem w) u of
        Some v \<Rightarrow> (Inr v, w)
      | None \<Rightarrow>
          (let v = fresh w
           in (Inr v,
               (set_mem (\<lambda>s. s\<lparr>objs := (objs s)(v := blank_vdi\<lparr>uuid := u, raw := r\<rparr>),
                                vdis := vdis s @ [(u, v)]\<rparr>) w)
               \<lparr>fresh := v + 1\<rparr>)))"

definition FileVDI_load :: "oid \<Rightarrow> vhdInfo \<Rightarrow> world \<Rightarrow> world" where
  "FileVDI_load v info =
     set_obj v (\<lambda>x. x\<lparr>parent := None, children := [],
        parentUuid := info_parentUuid info, sizeVirt := info_sizeVirt info,
        sizeVHD := info_sizePhys info, sizeAllocated := info_sizeAllocated info,
        hidden := info_hidden info, scanError := False, path := uuid x @ ''.vhd''\<rparr>)"

text \<open>
  \<^verbatim>\<open>FileSR._scan(force)\<close>: the storage does not change between the attempts, so every
  attempt reads the same.
\<close>

definition FileSR_scan_vhds :: "bool \<Rightarrow> (string \<times> vhdInfo) list step" where
  "FileSR_scan_vhds force w =
     (if list_ex (\<lambda>(u, info). info_error info) (disk w) then
        (if force then (Inr (disk w), w) else (Inl SMException, w))
      else (Inr (disk w), w))"

definition removeStaleVDIs :: "string list \<Rightarrow> unit step" where
  "removeStaleVDIs uuidsPresent =
     modify (set_mem (\<lambda>s. s\<lparr>vdis := filter (\<lambda>(u, v). u \<in> set uuidsPresent) (vdis s)\<rparr>))"

definition SR_buildTree :: "bool \<Rightarrow> unit step" where
  "SR_buildTree force w = (case buildTree force (mem w) of (r, s) \<Rightarrow> (r, w\<lparr>mem := s\<rparr>))"

text \<open>
  \<^verbatim>\<open>VDI.ensureUnpaused\<close> and \<^verbatim>\<open>FileSR._handleInterruptedCoalesceLeaf\<close>, the loop over the
  leaf journal entries.
\<close>

definition ensureUnpaused :: "env \<Rightarrow> oid \<Rightarrow> unit step" where
  "ensureUnpaused env v w =
     (if getConfig (obj w v) DB_VDI_PAUSED = Some ''true'' then
        (case vdi_unpause (tap env) (taps w) (obj w v) of (r, t) \<Rightarrow> (r, w\<lparr>taps := t\<rparr>))
      else (Inr (), w))"

definition handleInterruptedCoalesceLeaf :: "env \<Rightarrow> unit step" where
  "handleInterruptedCoalesceLeaf env w =
     for_each (journal_getAll (mem w) JRN_LEAF)
       (\<lambda>(u, pu).
          and_then (recover_leaf env u pu) (\<lambda>x.
          and_then (journaler_remove JRN_LEAF u) (\<lambda>x w.
            case getVDI (mem w) u of
              Some vdi \<Rightarrow> ensureUnpaused env vdi w
            | None \<Rightarrow> (Inr (), w)))) w"

definition FileSR_scan :: "env \<Rightarrow> bool \<Rightarrow> unit step" where
  "FileSR_scan env force =
     (if \<not> mounted env then throw SMException
      else
        and_then (FileSR_scan_vhds force) (\<lambda>vhds.
        and_then (for_each vhds (\<lambda>(u, vhdInfo).
                    and_then (register_vdi u False) (\<lambda>vdi. modify (FileVDI_load vdi vhdInfo)))) (\<lambda>x.
        and_then (\<lambda>w. for_each (raw_files w)
                    (\<lambda>u. and_then (register_vdi u True) (\<lambda>vdi. ret ())) w) (\<lambda>x.
        and_then (\<lambda>w. removeStaleVDIs (map fst vhds @ raw_files w) w) (\<lambda>x.
        and_then (SR_buildTree force) (\<lambda>x.
        handleInterruptedCoalesceLeaf env))))))"

subsection \<open>FileSR.deleteVDI\<close>

text \<open>
  \<^verbatim>\<open>FileSR._checkSlaves\<close>, \<^verbatim>\<open>SR.deleteVDI\<close>, \<^verbatim>\<open>FileVDI.delete\<close> and \<^verbatim>\<open>VDI._clear\<close>.
  \<^verbatim>\<open>del self.vdis[vdi.uuid]\<close> raises \<^verbatim>\<open>KeyError\<close> when there is no such key, and
  \<^verbatim>\<open>vdi.parent.children.remove(vdi)\<close> raises \<^verbatim>\<open>ValueError\<close> when the VDI is not in the list
  and removes its first occurrence otherwise. \<^verbatim>\<open>FileVDI.delete\<close> turns the \<^verbatim>\<open>OSError\<close> of
  \<^verbatim>\<open>os.unlink\<close> into \<^verbatim>\<open>SMException\<close>.
\<close>

definition checkSlaves :: "env \<Rightarrow> oid \<Rightarrow> unit step" where
  "checkSlaves env v w =
     (if fails env (CheckSlaves (uuid (obj w v))) then (Inl SMException, w) else (Inr (), w))"

definition forgetVDI :: "env \<Rightarrow> string \<Rightarrow> unit step" where
  "forgetVDI env u w = (if fails env (ForgetVDI u) then (Inl XenAPIFailure, w) else (Inr (), w))"

definition VDI_clear :: "oid \<Rightarrow> world \<Rightarrow> world" where
  "VDI_clear v = set_obj v (\<lambda>x. x\<lparr>uuid := [], path := [], parentUuid := [], parent := None\<rparr>)"

definition FileVDI_delete :: "env \<Rightarrow> oid \<Rightarrow> unit step" where
  "FileVDI_delete env v w =
     (if length (children (obj w v)) > 0 then (Inl SMException, w)
      else
        and_then
          (and_then (sr_lock env)
             (\<lambda>x. try_finally
                (and_then (vdi_file v) (\<lambda>f.
                 and_then (os_unlink f)
                   (\<lambda>x w. forgetVDI env (uuid (obj w v)) w)))
                sr_unlock))
          (\<lambda>x. modify (VDI_clear v)) w)"

definition SR_deleteVDI :: "env \<Rightarrow> oid \<Rightarrow> unit step" where
  "SR_deleteVDI env v w =
     (if length (children (obj w v)) \<noteq> 0 then (Inl AssertionError, w)
      else if getVDI (mem w) (uuid (obj w v)) = None then (Inl KeyError, w)
      else
        (let w = set_mem (\<lambda>s. s\<lparr>vdis := AList.delete (uuid (obj w v)) (vdis s)\<rparr>) w
         in case (case parent (obj w v) of
                    Some p \<Rightarrow>
                      if v \<in> set (children (obj w p))
                      then (Inr (), set_obj p (\<lambda>x. x\<lparr>children := remove1 v (children x)\<rparr>) w)
                      else (Inl ValueError, w)
                  | None \<Rightarrow> (Inr (), w)) of
              (Inl e, w) \<Rightarrow> (Inl e, w)
            | (Inr u, w) \<Rightarrow>
                FileVDI_delete env v
                  (if v \<in> set (vdiTrees (mem w))
                   then set_mem (\<lambda>s. s\<lparr>vdiTrees := remove1 v (vdiTrees s)\<rparr>) w
                   else w)))"

definition FileSR_deleteVDI :: "env \<Rightarrow> oid \<Rightarrow> unit step" where
  "FileSR_deleteVDI env v = and_then (checkSlaves env v) (\<lambda>x. SR_deleteVDI env v)"

subsection \<open>SR._coalesce\<close>

text \<open>
  The part of \<^verbatim>\<open>SR._coalesce\<close> before the SR lock is taken: nothing when a relink journal
  entry exists, otherwise the coalesce journal entry, the data coalesce, and the swap of
  the coalesce entry for a relink entry.
\<close>

definition coalesce_data :: "env \<Rightarrow> nat \<Rightarrow> oid \<Rightarrow> unit step" where
  "coalesce_data env depth vdi w =
     (if journal_has (mem w) JRN_RELINK (uuid (obj w vdi)) then (Inr (), w)
      else
        and_then (journaler_create JRN_COALESCE (uuid (obj w vdi)) ''1'') (\<lambda>x.
        and_then (doCoalesce env depth vdi) (\<lambda>x.
        and_then (\<lambda>w. journaler_remove JRN_COALESCE (uuid (obj w vdi)) w) (\<lambda>x w.
        journaler_create JRN_RELINK (uuid (obj w vdi)) ''1'' w))) w)"

text \<open>
  The body of the \<^verbatim>\<open>try\<close> under the SR lock (tag the leaves, rescan, relink the children),
  and the \<^verbatim>\<open>finally\<close> part.
\<close>

definition coalesce_relink ::
    "env \<Rightarrow> nat \<Rightarrow> oid \<Rightarrow> world \<Rightarrow> ((error + unit) \<times> world) option" where
  "coalesce_relink env depth vdi w =
     (case and_then (with_parent vdi (tagChildrenForRelink depth))
             (\<lambda>x. FileSR_scan env False) w of
        (Inl e, w1) \<Rightarrow> Some (Inl e, w1)
      | (Inr u, w1) \<Rightarrow> relinkSkip env vdi w1)"

definition coalesce_finally :: "env \<Rightarrow> nat \<Rightarrow> oid \<Rightarrow> unit step" where
  "coalesce_finally env depth vdi =
     and_then sr_unlock (\<lambda>x. with_parent vdi (\<lambda>p. reloadChildren env depth p vdi))"

text \<open>
  \<^verbatim>\<open>SR._coalesce(vdi)\<close> on a file-based SR. The result is \<open>None\<close> when the call does not
  return.
\<close>

definition SR_coalesce ::
    "env \<Rightarrow> nat \<Rightarrow> oid \<Rightarrow> world \<Rightarrow> ((error + unit) \<times> world) option" where
  "SR_coalesce env depth vdi w =
     (case and_then (coalesce_data env depth vdi) (\<lambda>x. sr_lock env) w of
        (Inl e, w1) \<Rightarrow> Some (Inl e, w1)
      | (Inr u, w1) \<Rightarrow>
          (case coalesce_relink env depth vdi w1 of
             None \<Rightarrow> None
           | Some (r, w2) \<Rightarrow>
               (case coalesce_finally env depth vdi w2 of
                  (Inl e, w3) \<Rightarrow> Some (Inl e, w3)
                | (Inr u, w3) \<Rightarrow>
                    (case r of
                       Inl e \<Rightarrow> Some (Inl e, w3)
                     | Inr u \<Rightarrow>
                         Some (and_then (\<lambda>w. journaler_remove JRN_RELINK (uuid (obj w vdi)) w)
                                 (\<lambda>x. FileSR_deleteVDI env vdi) w3)))))"

subsection \<open>Example worlds\<close>

text \<open>
  An environment in which nothing fails. \<open>pvc_world\<close> is a file-based SR after a scan:
  the hidden root \<open>P\<close> of virtual size 100, its hidden child \<open>V\<close> of virtual size 200,
  and the visible leaf \<open>C\<close> below \<open>V\<close>; memory and storage agree.
\<close>

definition calm_env :: env where
  "calm_env =
     \<lparr> fails = (\<lambda>c. False), abort_flag = False, lock_busy = False, mounted = True,
       maxResizeSize = (\<lambda>u. 1), coalesced_sizePhys = (\<lambda>u. 50),
       tap = \<lparr> pause_fails = (\<lambda>u. False), unpause_fails = (\<lambda>u. False) \<rparr>,
       recover_leaf = (\<lambda>u pu w. (Inr (), w)) \<rparr>"

definition vhd_P :: vhdInfo where
  "vhd_P = \<lparr> info_parentUuid = [], info_sizeVirt = 100, info_sizePhys = 40,
     info_sizeAllocated = 40, info_hidden = True, info_error = False \<rparr>"

definition vhd_V :: vhdInfo where
  "vhd_V = \<lparr> info_parentUuid = ''P'', info_sizeVirt = 200, info_sizePhys = 30,
     info_sizeAllocated = 30, info_hidden = True, info_error = False \<rparr>"

definition vhd_C :: vhdInfo where
  "vhd_C = \<lparr> info_parentUuid = ''V'', info_sizeVirt = 200, info_sizePhys = 20,
     info_sizeAllocated = 20, info_hidden = False, info_error = False \<rparr>"

definition loaded_vdi :: "string \<Rightarrow> vhdInfo \<Rightarrow> vdi" where
  "loaded_vdi u info =
     blank_vdi\<lparr>uuid := u, parent := None, children := [],
        parentUuid := info_parentUuid info, sizeVirt := info_sizeVirt info,
        sizeVHD := info_sizePhys info, sizeAllocated := info_sizeAllocated info,
        hidden := info_hidden info, scanError := False, path := u @ ''.vhd''\<rparr>"

definition pvc_objs :: "oid \<Rightarrow> vdi" where
  "pvc_objs = (\<lambda>v. blank_vdi)
     (10 := (loaded_vdi ''P'' vhd_P)\<lparr>children := [11]\<rparr>,
      11 := (loaded_vdi ''V'' vhd_V)\<lparr>parent := Some 10, children := [12]\<rparr>,
      12 := (loaded_vdi ''C'' vhd_C)\<lparr>parent := Some 11\<rparr>)"

definition pvc_world :: world where
  "pvc_world =
     \<lparr> mem = empty_sr\<lparr>objs := pvc_objs, vdis := [(''P'', 10), (''V'', 11), (''C'', 12)],
               vdiTrees := [10]\<rparr>,
       disk = [(''P'', vhd_P), (''V'', vhd_V), (''C'', vhd_C)],
       raw_files = [], taps = idle_tapdisks, fresh = 13, locked = 0 \<rparr>"

section \<open>Properties of the bit count\<close>

lemma upt_8_Cons: "[0..<8] = 0 # map Suc [0..<7]"
  by (simp add: upt_rec numeral_eq_Suc)

lemma upt_8_snoc: "[0..<8] = [0..<7] @ [7]"
proof -
  have "[0..<Suc 7] = [0..<7] @ [7]" by (rule upt_Suc_append) simp
  then show ?thesis by simp
qed

lemma byte_shifted_top_bit: "\<not> bit (drop_bit 1 (w::byte)) 7"
proof
  assume "bit (drop_bit 1 w) 7"
  then have "bit w 8" by (simp add: bit_drop_bit_eq)
  then have "8 < LENGTH(8)" by (rule bit_imp_le_length)
  then show False by simp
qed

lemma byte_low_bit: "unat ((w::byte) AND 1) = (if bit w 0 then 1 else 0)"
  by (simp add: and_one_eq bit_0 mod2_eq_if unat_mod)

lemma filter_bit_shift:
  "filter (bit w) (map Suc [0..<7]) = map Suc (filter (bit (drop_bit 1 (w::byte))) [0..<7])"
  by (simp only: filter_map comp_def bit_drop_bit_eq plus_1_eq_Suc)

lemma popcount_shifted:
  "popcount (drop_bit 1 w) = length (filter (bit (drop_bit 1 w)) [0..<7])"
  unfolding popcount_def upt_8_snoc using byte_shifted_top_bit [of w] by simp

lemma popcount_step: "popcount w = unat (w AND 1) + popcount (drop_bit 1 w)"
  unfolding popcount_shifted unfolding popcount_def upt_8_Cons
  using byte_low_bit [of w] filter_bit_shift [of w] by simp

lemma numBits_loop_0: "numBits_loop 0 count = count"
  by (subst numBits_loop.simps) simp

lemma numBits_loop_popcount: "numBits_loop val count = count + popcount val"
proof (induction val count rule: numBits_loop.induct)
  case (1 val count)
  show ?case
  proof (cases "val = 0")
    case True
    then show ?thesis by (simp add: numBits_loop_0 popcount_def)
  next
    case False
    with "1.IH" show ?thesis
      by (simp add: numBits_loop.simps [of val count] popcount_step [of val])
  qed
qed

text \<open>\<^verbatim>\<open>Util.numBits\<close> returns the number of set bits of a byte.\<close>

lemma numBits_popcount: "numBits val = popcount val"
  by (simp add: numBits_def numBits_loop_popcount)

lemma fold_add_sum_list:
  "fold (\<lambda>i count. count + f i) xs (c::nat) = c + sum_list (map f xs)"
  by (induction xs arbitrary: c) simp_all

lemma sum_list_map_nth:
  "sum_list (map f bs) = sum_list (map (\<lambda>i. f (bs ! i)) [0..<length bs])"
proof -
  have "map f bs = map f (map (\<lambda>i. bs ! i) [0..<length bs])" by (simp only: map_nth)
  then show ?thesis by (simp add: comp_def)
qed

lemma length_or_bitmaps: "length (or_bitmaps b1 b2) = max (length b1) (length b2)"
  by (auto simp: or_bitmaps_def zero_extend_def Let_def)

lemma or_bitmaps_nth_both:
  "i < length b1 \<Longrightarrow> i < length b2 \<Longrightarrow> or_bitmaps b1 b2 ! i = (b1 ! i) OR (b2 ! i)"
  by (auto simp: or_bitmaps_def zero_extend_def Let_def nth_append)

lemma or_bitmaps_nth_left:
  "i < length b1 \<Longrightarrow> length b2 \<le> i \<Longrightarrow> or_bitmaps b1 b2 ! i = b1 ! i"
  by (auto simp: or_bitmaps_def zero_extend_def Let_def nth_append)

lemma or_bitmaps_nth_right:
  "i < length b2 \<Longrightarrow> length b1 \<le> i \<Longrightarrow> or_bitmaps b1 b2 ! i = b2 ! i"
  by (auto simp: or_bitmaps_def zero_extend_def Let_def nth_append)

lemma bitcount_or_bitmaps_split:
  assumes "s = min (length b1) (length b2)" and "l = max (length b1) (length b2)"
  shows "bitcount (or_bitmaps b1 b2) =
     sum_list (map (\<lambda>i. popcount ((b1 ! i) OR (b2 ! i))) [0..<s]) +
     sum_list (map (\<lambda>i. popcount ((if length b2 > length b1 then b2 else b1) ! i)) [s..<l])"
proof -
  have sl: "s \<le> l" using assms by simp
  have "bitcount (or_bitmaps b1 b2) =
      sum_list (map (\<lambda>i. popcount (or_bitmaps b1 b2 ! i)) [0..<l])"
    unfolding bitcount_def using sum_list_map_nth [of popcount "or_bitmaps b1 b2"]
    by (simp add: length_or_bitmaps assms)
  also have "[0..<l] = [0..<s] @ [s..<l]"
    using sl by (metis le_add_diff_inverse upt_add_eq_append zero_le)
  also have "sum_list (map (\<lambda>i. popcount (or_bitmaps b1 b2 ! i)) ([0..<s] @ [s..<l])) =
      sum_list (map (\<lambda>i. popcount (or_bitmaps b1 b2 ! i)) [0..<s]) +
      sum_list (map (\<lambda>i. popcount (or_bitmaps b1 b2 ! i)) [s..<l])" by simp
  also have "map (\<lambda>i. popcount (or_bitmaps b1 b2 ! i)) [0..<s] =
      map (\<lambda>i. popcount ((b1 ! i) OR (b2 ! i))) [0..<s]"
    using assms by (auto simp: or_bitmaps_nth_both)
  also have "map (\<lambda>i. popcount (or_bitmaps b1 b2 ! i)) [s..<l] =
      map (\<lambda>i. popcount ((if length b2 > length b1 then b2 else b1) ! i)) [s..<l]"
    using assms by (auto simp: or_bitmaps_nth_left or_bitmaps_nth_right)
  finally show ?thesis .
qed

text \<open>
  When neither bitmap is empty, \<^verbatim>\<open>countBits\<close> returns the number of set bits of the OR of
  the two bitmaps, the shorter one extended by zero bytes.
\<close>

lemma countBits_nonempty:
  assumes "bitmap1 \<noteq> []" and "bitmap2 \<noteq> []"
  shows "countBits bitmap1 bitmap2 = Inr (bitcount (or_bitmaps bitmap1 bitmap2))"
proof (cases "length bitmap2 > length bitmap1")
  case True
  with assms show ?thesis
    using bitcount_or_bitmaps_split [of "length bitmap1" bitmap1 bitmap2 "length bitmap2"]
    by (simp add: countBits_def countBits_i_def fold_add_sum_list numBits_popcount
        min_def max_def Let_def)
next
  case False
  with assms show ?thesis
    using bitcount_or_bitmaps_split [of "length bitmap2" bitmap1 bitmap2 "length bitmap1"]
    by (simp add: countBits_def countBits_i_def fold_add_sum_list numBits_popcount
        min_def max_def Let_def)
qed

lemma countBits_empty:
  "bitmap1 = [] \<or> bitmap2 = [] \<Longrightarrow> countBits bitmap1 bitmap2 = Inl UnboundLocalError"
  by (auto simp: countBits_def countBits_i_def Let_def)

lemma getCoalescedSizeData_nonempty:
  assumes "blocksChild \<noteq> []" and "blocksParent \<noteq> []"
    and "getCoalescedSizeData bs blocksChild blocksParent sv = Inr sizeData"
  shows "sizeData = int (bitcount (or_bitmaps blocksChild blocksParent)) * bs"
  using assms
  by (auto simp: getCoalescedSizeData_def countBits_nonempty Let_def split: if_splits)

text \<open>
  Claim C7. \<^verbatim>\<open>Util.countBits(b1, b2)\<close> is claimed to return, for every pair of byte
  bitmaps, the number of set bits of their OR, the shorter bitmap zero-extended. With an
  empty first bitmap and the one-byte bitmap \<open>[1]\<close> that number is 1 (the second
  conjunct), but the code raises \<^verbatim>\<open>UnboundLocalError\<close>: the loop variable \<open>i\<close> that the
  second loop starts from was never assigned (the first conjunct). So does
  \<^verbatim>\<open>VDI._getCoalescedSizeData\<close> on these bitmaps (the third conjunct).
\<close>

theorem countBits_empty_bitmap_raises:
  "countBits [] [1] = Inl UnboundLocalError
   \<and> bitcount (or_bitmaps [] [1]) = 1
   \<and> getCoalescedSizeData 2097152 [] [1] 4194304 = Inl UnboundLocalError"
  by (simp add: countBits_def countBits_i_def getCoalescedSizeData_def bitcount_def
      or_bitmaps_def zero_extend_def popcount_def upt_8_Cons bit_0)

section \<open>Properties of canLiveCoalesce and getStorageSpeed\<close>

lemma floor_less_5: "(of_int \<lfloor>x::real\<rfloor> :: real) < 5 \<longleftrightarrow> x < 5"
proof -
  have "(of_int \<lfloor>x\<rfloor> :: real) < of_int 5 \<longleftrightarrow> \<lfloor>x\<rfloor> < 5" by (simp only: of_int_less_iff)
  also have "\<dots> \<longleftrightarrow> x < of_int 5" by (rule floor_less_iff)
  finally show ?thesis by simp
qed

text \<open>
  Claim C3. \<^verbatim>\<open>canLiveCoalesce(speed)\<close> returns true if and only if: with a positive speed
  \<open>s\<close>, the allocated size divided by \<open>s\<close> is less than \<open>TIMEOUT_SAFETY_MARGIN\<close> (0.5) times
  \<open>LIVE_LEAF_COALESCE_TIMEOUT\<close> (10); with no speed, the allocated size is less than 20 MiB;
  or the configuration key \<open>leaf-coalesce\<close> is \<open>force\<close>. (The code divides with \<open>//\<close>; the
  floor of a quotient is below 5 exactly when the quotient is.)
\<close>

theorem canLiveCoalesce_iff:
  "(0 < s \<longrightarrow>
      canLiveCoalesce L (Some s) =
        Inr (real_of_int (getAllocatedSize L) / s
               < TIMEOUT_SAFETY_MARGIN * LIVE_LEAF_COALESCE_TIMEOUT
             \<or> getConfig L ''leaf-coalesce'' = Some ''force''))
   \<and> canLiveCoalesce L None =
        Inr (getAllocatedSize L < 20 * 1024 * 1024
             \<or> getConfig L ''leaf-coalesce'' = Some ''force'')
   \<and> TIMEOUT_SAFETY_MARGIN = 0.5 \<and> LIVE_LEAF_COALESCE_TIMEOUT = 10"
  by (simp add: canLiveCoalesce_def truthy_speed_def py_floordiv_def Let_def floor_less_5
      TIMEOUT_SAFETY_MARGIN_def LIVE_LEAF_COALESCE_TIMEOUT_def LIVE_LEAF_COALESCE_MAX_SIZE_def
      DB_LEAFCLSC_def LEAFCLSC_FORCE_def)

theorem canLiveCoalesce_iff_witness:
  "(0::real) < 2000000
   \<and> canLiveCoalesce small_leaf (Some 2000000) = Inr True
   \<and> canLiveCoalesce small_leaf None = Inr True"
proof -
  have pos: "(0::real) < 2000000" by simp
  have v: "real_of_int (getAllocatedSize small_leaf) / 2000000
      < TIMEOUT_SAFETY_MARGIN * LIVE_LEAF_COALESCE_TIMEOUT"
    by (simp add: small_leaf_def getAllocatedSize_def TIMEOUT_SAFETY_MARGIN_def
        LIVE_LEAF_COALESCE_TIMEOUT_def)
  have w: "getAllocatedSize small_leaf < 20 * 1024 * 1024"
    by (simp add: small_leaf_def getAllocatedSize_def)
  from canLiveCoalesce_iff [of 2000000 small_leaf] pos
  have "canLiveCoalesce small_leaf (Some 2000000) =
      Inr (real_of_int (getAllocatedSize small_leaf) / 2000000
             < TIMEOUT_SAFETY_MARGIN * LIVE_LEAF_COALESCE_TIMEOUT
           \<or> getConfig small_leaf ''leaf-coalesce'' = Some ''force'')"
    and "canLiveCoalesce small_leaf None =
      Inr (getAllocatedSize small_leaf < 20 * 1024 * 1024
           \<or> getConfig small_leaf ''leaf-coalesce'' = Some ''force'')"
    by blast+
  with v w pos show ?thesis by simp
qed

lemma canLiveCoalesce_ieee_finite:
  "canLiveCoalesce_ieee L (map_option Finite speed) = canLiveCoalesce L speed"
  by (cases speed)
    (simp_all add: canLiveCoalesce_ieee_def canLiveCoalesce_def truthy_float_def
      truthy_speed_def py_floordiv_def Let_def)

lemma canLiveCoalesce_ieee_returns: "\<exists>b. canLiveCoalesce_ieee L speed = Inr b"
proof (cases speed)
  case None
  then show ?thesis by (simp add: canLiveCoalesce_ieee_def Let_def)
next
  case (Some s)
  then show ?thesis
    by (cases s) (simp_all add: canLiveCoalesce_ieee_def truthy_float_def Let_def)
qed

lemma foldl_float_add_finite:
  "foldl float_add (Finite a) (map Finite xs) = Finite (a + sum_list xs)"
  by (induction xs arbitrary: a) (simp_all add: add.assoc)

lemma py_sum_finite: "py_sum (map Finite xs) = Finite (sum_list xs)"
  by (simp add: py_sum_def foldl_float_add_finite)

lemma float_truediv_count:
  "0 < n \<Longrightarrow> \<exists>m. float_truediv x (Finite (real n)) = Inr m \<and>
     (\<forall>a. x = Finite a \<longrightarrow> m = Finite (a / real n))"
  by (cases x) simp_all

lemma not_float_le_zero:
  "\<not> float_le m (Finite 0) \<longleftrightarrow> m = NaN \<or> m = PosInf \<or> (\<exists>s. m = Finite s \<and> 0 < s)"
  by (cases m) auto

lemma getStorageSpeed_readable:
  "\<exists>speed. getStorageSpeed float_of None (map_option Inr speedFile) = Inr speed \<and>
     (speed = None \<or>
      (\<exists>m content samples. speed = Some m \<and> speedFile = Some content \<and>
         parse_lines float_of content = Inr samples \<and> samples \<noteq> [] \<and>
         float_truediv (py_sum samples) (Finite (real (length samples))) = Inr m \<and>
         \<not> float_le m (Finite 0)))"
proof (cases speedFile)
  case None
  then show ?thesis by (simp add: getStorageSpeed_def)
next
  case (Some content)
  show ?thesis
  proof (cases "parse_lines float_of content")
    case (Inl e)
    with Some show ?thesis by (simp add: getStorageSpeed_def)
  next
    case (Inr samples)
    show ?thesis
    proof (cases "samples = []")
      case True
      with Some Inr show ?thesis by (simp add: getStorageSpeed_def)
    next
      case False
      then have "0 < length samples" by simp
      from float_truediv_count [OF this, of "py_sum samples"] obtain m where
        m: "float_truediv (py_sum samples) (Finite (real (length samples))) = Inr m" by blast
      with Some Inr False show ?thesis by (simp add: getStorageSpeed_def)
    qed
  qed
qed

text \<open>
  Claim C10, as stated, fails on a speed log that holds the line \<open>nan\<close>, or the two
  lines \<open>inf\<close> and \<open>-inf\<close>: \<^verbatim>\<open>float\<close> accepts them, the mean is not-a-number, the test
  \<^verbatim>\<open>speed <= 0\<close> is false for it, and \<^verbatim>\<open>getStorageSpeed\<close> returns not-a-number, which is
  neither \<^verbatim>\<open>None\<close> nor a strictly positive number.
\<close>

theorem getStorageSpeed_returns_nan:
  "getStorageSpeed example_float None (Some (Inr [''nan''])) = Inr (Some NaN)
   \<and> getStorageSpeed example_float None (Some (Inr [''inf'', ''-inf''])) = Inr (Some NaN)
   \<and> \<not> float_lt (Finite 0) NaN"
  by (simp add: getStorageSpeed_def example_float_def py_sum_def)

text \<open>
  Claim C10, amended. When \<^verbatim>\<open>open\<close> or \<^verbatim>\<open>readlines\<close> raises on the speed log,
  \<^verbatim>\<open>getStorageSpeed\<close> raises that exception. On a log that is absent or can be read
  (empty, with a line that \<^verbatim>\<open>float\<close> rejects, or a list of samples), \<^verbatim>\<open>getStorageSpeed\<close>,
  once it holds the lock, returns \<^verbatim>\<open>None\<close> or the mean of the samples, and this mean is
  not-a-number, plus infinity, or a strictly positive number; when all samples are finite,
  it is their arithmetic mean and strictly positive. In every case \<^verbatim>\<open>canLiveCoalesce\<close>
  called with that speed returns a boolean: its division does not raise
  \<^verbatim>\<open>ZeroDivisionError\<close>.
\<close>

theorem getStorageSpeed_None_or_positive:
  "getStorageSpeed float_of None (Some (Inl e)) = Inl e
   \<and> (\<exists>speed. getStorageSpeed float_of None (map_option Inr speedFile) = Inr speed
     \<and> (speed = None \<or>
         (\<exists>m content samples. speed = Some m \<and> speedFile = Some content \<and>
            parse_lines float_of content = Inr samples \<and> samples \<noteq> [] \<and>
            float_truediv (py_sum samples) (Finite (real (length samples))) = Inr m \<and>
            (m = NaN \<or> m = PosInf \<or> (\<exists>s. m = Finite s \<and> 0 < s)) \<and>
            (\<forall>xs. samples = map Finite xs \<longrightarrow>
               m = Finite (sum_list xs / real (length xs)) \<and>
               0 < sum_list xs / real (length xs))))
     \<and> (\<exists>b. canLiveCoalesce_ieee L speed = Inr b))"
proof -
  have 1: "getStorageSpeed float_of None (Some (Inl e)) = Inl e"
    by (simp add: getStorageSpeed_def)
  obtain speed where r: "getStorageSpeed float_of None (map_option Inr speedFile) = Inr speed"
    and c: "speed = None \<or>
      (\<exists>m content samples. speed = Some m \<and> speedFile = Some content \<and>
         parse_lines float_of content = Inr samples \<and> samples \<noteq> [] \<and>
         float_truediv (py_sum samples) (Finite (real (length samples))) = Inr m \<and>
         \<not> float_le m (Finite 0))"
    using getStorageSpeed_readable by blast
  have "speed = None \<or>
         (\<exists>m content samples. speed = Some m \<and> speedFile = Some content \<and>
            parse_lines float_of content = Inr samples \<and> samples \<noteq> [] \<and>
            float_truediv (py_sum samples) (Finite (real (length samples))) = Inr m \<and>
            (m = NaN \<or> m = PosInf \<or> (\<exists>s. m = Finite s \<and> 0 < s)) \<and>
            (\<forall>xs. samples = map Finite xs \<longrightarrow>
               m = Finite (sum_list xs / real (length xs)) \<and>
               0 < sum_list xs / real (length xs)))"
  proof (cases speed)
    case None
    then show ?thesis by simp
  next
    case (Some m0)
    with c obtain m content samples where f: "speed = Some m" "speedFile = Some content"
      "parse_lines float_of content = Inr samples" "samples \<noteq> []"
      "float_truediv (py_sum samples) (Finite (real (length samples))) = Inr m"
      "\<not> float_le m (Finite 0)"
      by blast
    from f(6) have p: "m = NaN \<or> m = PosInf \<or> (\<exists>s. m = Finite s \<and> 0 < s)"
      by (simp only: not_float_le_zero)
    have "m = Finite (sum_list xs / real (length xs)) \<and> 0 < sum_list xs / real (length xs)"
      if "samples = map Finite xs" for xs
    proof -
      from that f(4) have n: "xs \<noteq> []" by auto
      from f(5) that n have e: "m = Finite (sum_list xs / real (length xs))"
        by (simp add: py_sum_finite)
      with f(6) show ?thesis by simp
    qed
    with f p show ?thesis by blast
  qed
  with 1 r canLiveCoalesce_ieee_returns [of L speed] show ?thesis by blast
qed

theorem getStorageSpeed_None_or_positive_witness:
  "getStorageSpeed example_float None (Some (Inr [''1000.0'', ''3000.0''])) = Inr (Some (Finite 2000))
   \<and> parse_lines example_float [''1000.0'', ''3000.0''] = Inr (map Finite [1000, 3000])
   \<and> getStorageSpeed example_float None (Some (Inr [''0.0''])) = Inr None
   \<and> getStorageSpeed example_float None (Some (Inr [''fast''])) = Inr None
   \<and> getStorageSpeed example_float None (Some (Inr [])) = Inr None
   \<and> getStorageSpeed example_float None None = Inr None
   \<and> getStorageSpeed example_float None (Some (Inl UnicodeDecodeError)) = Inl UnicodeDecodeError
   \<and> (\<exists>b. canLiveCoalesce_ieee small_leaf (Some (Finite 2000)) = Inr b)"
  using getStorageSpeed_None_or_positive
    [of example_float UnicodeDecodeError "Some [''1000.0'', ''3000.0'']" small_leaf]
  by (simp add: getStorageSpeed_def example_float_def py_sum_def)
section \<open>Properties of the progress tracker\<close>


lemma abortCoalesce_record_its: "its (abortCoalesce_record t p c) = its t + 1"
  by (simp add: abortCoalesce_record_def Let_def)

lemma abortCoalesce_record_itsNoProgress:
  "itsNoProgress (abortCoalesce_record t p c) = itsNoProgress t"
  by (simp add: abortCoalesce_record_def Let_def)

lemma abortCoalesce_record_grace:
  "grace_remaining (abortCoalesce_record t p c) = grace_remaining t"
  by (simp add: abortCoalesce_record_def Let_def)

lemma abortCoalesce_record_minSize:
  "minSize (abortCoalesce_record t p c) =
     (case minSize t of None \<Rightarrow> Some (min p c) | Some k \<Rightarrow> Some (min (min p c) k))"
  by (cases "minSize t")
    (auto simp: abortCoalesce_record_def Let_def less_minSize_def min_def)

lemma abortCoalesce_its: "its (snd (abortCoalesce t p c)) = its t + 1"
  by (simp add: abortCoalesce_def Let_def abortCoalesce_record_its)

lemma abortCoalesce_itsNoProgress:
  "itsNoProgress (snd (abortCoalesce t p c)) =
     itsNoProgress t + (if its t \<noteq> 0 \<and> p < c then 1 else 0)"
  by (simp add: abortCoalesce_def Let_def abortCoalesce_record_its
      abortCoalesce_record_itsNoProgress)

lemma abortCoalesce_minSize:
  "minSize (snd (abortCoalesce t p c)) =
     (case minSize t of None \<Rightarrow> Some (min p c) | Some k \<Rightarrow> Some (min (min p c) k))"
  by (simp add: abortCoalesce_def Let_def abortCoalesce_record_minSize)

lemma abortCoalesce_no_growth: "\<not> p < c \<Longrightarrow> \<not> fst (abortCoalesce t p c)"
  by (simp add: abortCoalesce_def Let_def)

lemma abortCoalesce_first: "its t = 0 \<Longrightarrow> \<not> fst (abortCoalesce t p c)"
  by (simp add: abortCoalesce_def Let_def abortCoalesce_record_its)

lemma abortCoalesce_iff:
  "fst (abortCoalesce t p c) \<longleftrightarrow>
     its t \<noteq> 0 \<and> p < c \<and>
     (its t + 1 > MAX_ITERATIONS \<or> itsNoProgress t + 1 > MAX_ITERATIONS_NO_PROGRESS \<or>
      (above_maxSizeFromMin c (minSize (snd (abortCoalesce t p c))) \<and> grace_remaining t = 1))"
  by (auto simp: abortCoalesce_def Let_def abortCoalesce_record_its
      abortCoalesce_record_itsNoProgress abortCoalesce_record_grace)

lemma feed_append:
  "feed t (xs @ ys) = (fst (feed t xs) @ fst (feed (snd (feed t xs)) ys), snd (feed (snd (feed t xs)) ys))"
  by (induction xs arbitrary: t) (auto simp: Let_def split: prod.splits)

lemma tracker_after_snoc:
  "tracker_after (xs @ [(p, c)]) = snd (abortCoalesce (tracker_after xs) p c)"
  by (simp add: tracker_after_def feed_append split: prod.splits)

lemma min_seen_snoc:
  "min_seen (xs @ [(p, c)]) =
     (case min_seen xs of None \<Rightarrow> Some (min p c) | Some k \<Rightarrow> Some (min (min p c) k))"
  by (induction xs rule: min_seen.induct) (auto split: option.splits)

lemma tracker_after_its: "its (tracker_after xs) = int (length xs)"
proof (induction xs rule: rev_induct)
  case Nil
  show ?case by (simp add: tracker_after_def new_tracker_def)
next
  case (snoc x xs)
  then show ?case by (cases x) (simp add: tracker_after_snoc abortCoalesce_its)
qed

lemma tracker_after_minSize: "minSize (tracker_after xs) = min_seen xs"
proof (induction xs rule: rev_induct)
  case Nil
  show ?case by (simp add: tracker_after_def new_tracker_def)
next
  case (snoc x xs)
  then show ?case by (cases x) (simp add: tracker_after_snoc abortCoalesce_minSize min_seen_snoc)
qed

lemma grew_pair: "grew (p, c) \<longleftrightarrow> p < c"
  by (simp add: grew_def)

lemma tracker_after_itsNoProgress:
  "itsNoProgress (tracker_after xs) = int (length (filter grew (tl xs)))"
proof (induction xs rule: rev_induct)
  case Nil
  show ?case by (simp add: tracker_after_def new_tracker_def)
next
  case (snoc x xs)
  obtain p c where x: "x = (p, c)" by (cases x)
  have "itsNoProgress (tracker_after (xs @ [x])) =
      itsNoProgress (tracker_after xs) + (if xs \<noteq> [] \<and> p < c then 1 else 0)"
    by (simp add: x tracker_after_snoc abortCoalesce_itsNoProgress tracker_after_its)
  also have "\<dots> = int (length (filter grew (tl (xs @ [x]))))"
    using snoc.IH by (cases xs) (simp_all add: x grew_pair)
  finally show ?case .
qed

lemma feed_no_growth:
  "\<forall>x \<in> set xs. \<not> grew x \<Longrightarrow> fst (feed t xs) = replicate (length xs) False"
proof (induction xs arbitrary: t)
  case Nil
  show ?case by simp
next
  case (Cons x xs)
  obtain p c where x: "x = (p, c)" by (cases x)
  obtain b t' where bt: "abortCoalesce t p c = (b, t')" by (cases "abortCoalesce t p c")
  from Cons.prems x have "\<not> p < c" by (simp add: grew_def)
  with abortCoalesce_no_growth [of p c t] bt have "\<not> b" by simp
  moreover from Cons have "fst (feed t' xs) = replicate (length xs) False" by simp
  ultimately show ?case using x bt by (simp add: split_def)
qed

text \<open>
  Claim C4, as stated, fails. It says that the tracker reports abort when the iteration count
  exceeds \<open>MAX_ITERATIONS\<close>, or when the number of iterations without size decrease
  (\<open>prevSize\<close> not greater than \<open>curSize\<close>) exceeds \<open>MAX_ITERATIONS_NO_PROGRESS\<close>. Fed
  eleven times the pair \<open>(5, 5)\<close>, a fresh tracker returns \<open>False\<close> every time, although its
  iteration count is then 11 and all eleven iterations were without decrease: the code
  counts an iteration as "no progress" only when \<open>prevSize < curSize\<close>, and returns \<open>False\<close>
  at once otherwise.
\<close>

theorem abortCoalesce_steady_sizes_never_abort:
  "fst (feed new_tracker (replicate 11 (5, 5))) = replicate 11 False
   \<and> its (snd (feed new_tracker (replicate 11 (5, 5)))) = 11
   \<and> 11 > MAX_ITERATIONS
   \<and> length (filter (\<lambda>(prevSize, curSize). \<not> prevSize > curSize)
         (replicate 11 (5::int, 5::int))) = 11
   \<and> 11 > MAX_ITERATIONS_NO_PROGRESS"
proof -
  have "fst (feed new_tracker (replicate 11 (5, 5))) = replicate (length (replicate 11 (5::int, 5::int))) False"
    by (rule feed_no_growth) (simp add: grew_def)
  moreover have "its (snd (feed new_tracker (replicate 11 (5, 5)))) = 11"
    using tracker_after_its [of "replicate 11 (5, 5)"] by (simp add: tracker_after_def)
  ultimately show ?thesis
    by (simp add: MAX_ITERATIONS_def MAX_ITERATIONS_NO_PROGRESS_def)
qed

text \<open>
  Claim C4, amended. After any sequence \<open>xs\<close> of pairs fed to a fresh tracker, the next call
  \<open>abortCoalesce(p, c)\<close> returns \<open>True\<close> exactly when it is not the first call, the size grew
  in it (\<open>p < c\<close>; equal sizes count as progress), and one of these holds: the call is the
  eleventh or later; three or more earlier calls after the first saw the size grow; or
  \<open>c\<close> exceeds 1.2 times the smallest size seen and one grace iteration is left (the grace
  count is not reset, so the two iterations need not be consecutive).
\<close>

theorem abortCoalesce_after_sequence:
  "fst (abortCoalesce (tracker_after xs) p c) \<longleftrightarrow>
     xs \<noteq> [] \<and> p < c \<and>
     (length xs \<ge> 10 \<or> length (filter grew (tl xs)) \<ge> 3 \<or>
      (above_maxSizeFromMin c (min_seen (xs @ [(p, c)])) \<and>
       grace_remaining (tracker_after xs) = 1))"
  unfolding abortCoalesce_iff [of "tracker_after xs" p c]
  by (simp add: tracker_after_its tracker_after_itsNoProgress tracker_after_snoc [symmetric]
     tracker_after_minSize MAX_ITERATIONS_def MAX_ITERATIONS_NO_PROGRESS_def) 

theorem abortCoalesce_after_sequence_witness:
  "fst (abortCoalesce (tracker_after [(1, 2), (1, 2)]) 1 2)
   \<and> \<not> fst (abortCoalesce (tracker_after [(1, 2), (1, 2)]) 2 2)
   \<and> grace_remaining (tracker_after [(1, 2), (1, 2)]) = 1"
  using abortCoalesce_after_sequence [of "[(1, 2), (1, 2)]" 1 2]
    abortCoalesce_after_sequence [of "[(1, 2), (1, 2)]" 2 2]
  by (simp add: tracker_after_def new_tracker_def abortCoalesce_def abortCoalesce_record_def less_minSize_def
      above_maxSizeFromMin_def GRACE_ITERATIONS_def MAX_ITERATIONS_def
      MAX_ITERATIONS_NO_PROGRESS_def MAX_INCREASE_FROM_MINIMUM_def Let_def)

section \<open>Properties of the leaf-coalesce loop\<close>

lemma steady_no_abort: "\<not> fst (abortCoalesce t (prevSizeVHD steady_round) (newSizeVHD steady_round))"
  by (rule abortCoalesce_no_growth) (simp add: steady_round_def)

lemma steady_loop_never_returns:
  assumes "coalesceLeaf_loop env i t = Some y"
  shows "env \<noteq> steady_env"
proof (rule coalesceLeaf_loop.raw_induct [where P = "\<lambda>env i t y. env \<noteq> steady_env", OF _ assms])
  fix loop env i t y
  assume IH: "\<And>env i t y. loop env i t = Some y \<Longrightarrow> env \<noteq> steady_env"
    and body: "(if canLive (env i) then Some (LiveStep, i)
      else case snapshotCoalesce (env i) of
             SnapTrue \<Rightarrow>
               (let (abort, tracker) =
                      abortCoalesce t (prevSizeVHD (env i)) (newSizeVHD (env i))
                in if abort then Some (Raise SMException, i + 1)
                   else loop env (i + 1) tracker)
           | SnapFalse \<Rightarrow> Some (ReturnFalse, i + 1)
           | SnapRaise e \<Rightarrow> Some (Raise e, i + 1)) = Some y"
  show "env \<noteq> steady_env"
  proof
    assume e: "env = steady_env"
    obtain b t' where bt: "abortCoalesce t (prevSizeVHD steady_round) (newSizeVHD steady_round) = (b, t')"
      by (cases "abortCoalesce t (prevSizeVHD steady_round) (newSizeVHD steady_round)")
    with steady_no_abort [of t] have "\<not> b" by simp
    with body e bt have "loop steady_env (i + 1) t' = Some y"
      by (simp add: steady_env_def steady_round_def)
    with IH show False by blast
  qed
qed

text \<open>
  Claim C5, as stated, fails. It says that the loop is bounded by the tracker's
  \<open>MAX_ITERATIONS\<close> for every behaviour in which \<^verbatim>\<open>_snapshotCoalesce\<close> keeps returning true.
  In the behaviour \<open>steady_env\<close> (\<open>canLiveCoalesce\<close> stays false, every snapshot-coalesce
  succeeds and leaves the size at 5) the tracker never aborts and the loop never ends.
\<close>

theorem coalesceLeaf_steady_never_ends: "coalesceLeaf steady_env = None"
proof (cases "coalesceLeaf steady_env")
  case None
  then show ?thesis .
next
  case (Some y)
  then show ?thesis using steady_loop_never_returns [of steady_env 0 new_tracker y]
    by (simp add: coalesceLeaf_def)
qed

lemma loop_ends_by:
  assumes "1 \<le> i" and "round_grew (env i)"
    and "10 \<le> i \<or> 3 \<le> length (filter (\<lambda>j. round_grew (env j)) [1..<i])"
    and "j \<le> i" and "its t = int j"
    and "itsNoProgress t = int (length (filter (\<lambda>j. round_grew (env j)) [1..<j]))"
  shows "\<exists>e k. coalesceLeaf_loop env j t = Some (e, k) \<and> k \<le> i + 1"
  using assms(4-6)
proof (induction "i - j" arbitrary: j t)
  case 0
  then have ji: "j = i" by simp
  obtain b t' where bt: "abortCoalesce t (prevSizeVHD (env i)) (newSizeVHD (env i)) = (b, t')"
    by (cases "abortCoalesce t (prevSizeVHD (env i)) (newSizeVHD (env i))")
  have "fst (abortCoalesce t (prevSizeVHD (env i)) (newSizeVHD (env i)))"
    unfolding abortCoalesce_iff using assms(1-3) 0 ji
    by (auto simp: round_grew_def MAX_ITERATIONS_def MAX_ITERATIONS_NO_PROGRESS_def)
  with bt have b by simp
  with bt ji show ?case
    by (subst coalesceLeaf_loop.simps) (auto split: snapshot_result.splits)
next
  case (Suc n)
  then have lt: "j < i" by simp
  obtain b t' where bt: "abortCoalesce t (prevSizeVHD (env j)) (newSizeVHD (env j)) = (b, t')"
    by (cases "abortCoalesce t (prevSizeVHD (env j)) (newSizeVHD (env j))")
  have t'1: "its t' = int (j + 1)"
    using abortCoalesce_its [of t "prevSizeVHD (env j)" "newSizeVHD (env j)"] bt Suc.prems by simp
  have t'2: "itsNoProgress t' = int (length (filter (\<lambda>j. round_grew (env j)) [1..<j + 1]))"
    using abortCoalesce_itsNoProgress [of t "prevSizeVHD (env j)" "newSizeVHD (env j)"] bt Suc.prems
    by (cases "j = 0") (auto simp: round_grew_def)
  have "\<exists>e k. coalesceLeaf_loop env (j + 1) t' = Some (e, k) \<and> k \<le> i + 1"
    using Suc.hyps(1) [of "j + 1" t'] Suc.hyps(2) lt t'1 t'2 by simp
  with bt lt show ?case
    by (subst coalesceLeaf_loop.simps) (auto split: snapshot_result.splits)
qed

text \<open>
  Claim C5, amended. The loop is bounded by the rounds in which the size grew: if round
  \<open>i\<close> (counted from 0, \<open>i \<ge> 1\<close>) is one in which the size grew, and it is the eleventh
  round or later, or three earlier rounds after the first saw the size grow, then the
  loop ends (it reaches the live step, returns false or raises) and has begun at most
  \<open>i + 1\<close> rounds by then.
\<close>

theorem coalesceLeaf_ends_after_growth:
  assumes "1 \<le> i" and "round_grew (env i)"
    and "10 \<le> i \<or> 3 \<le> length (filter (\<lambda>j. round_grew (env j)) [1..<i])"
  shows "\<exists>e k. coalesceLeaf env = Some (e, k) \<and> k \<le> i + 1"
  unfolding coalesceLeaf_def
  using loop_ends_by [OF assms, of 0 new_tracker] by (simp add: new_tracker_def)


theorem coalesceLeaf_ends_after_growth_witness:
  "(1::nat) \<le> 4 \<and> round_grew (growing_env 4)
   \<and> 3 \<le> length (filter (\<lambda>j. round_grew (growing_env j)) [1..<4])
   \<and> (\<exists>e k. coalesceLeaf growing_env = Some (e, k) \<and> k \<le> 4 + 1)"
proof -
  have a: "(1::nat) \<le> 4" by simp
  have b: "round_grew (growing_env 4)" by (simp add: round_grew_def growing_env_def)
  have u: "[1..<4] = [1, 2, 3]" by (simp add: upt_rec)
  have c: "10 \<le> (4::nat) \<or> 3 \<le> length (filter (\<lambda>j. round_grew (growing_env j)) [1..<4])"
    unfolding u by (simp add: round_grew_def growing_env_def)
  from c have c': "3 \<le> length (filter (\<lambda>j. round_grew (growing_env j)) [1..<4])" by simp
  show ?thesis using a b c' coalesceLeaf_ends_after_growth [OF a b c] by simp
qed

section \<open>Properties of the tree rebuild\<close>

lemma same_names_refl: "same_names s s"
  by (simp add: same_names_def)

lemma same_names_trans: "same_names s s' \<Longrightarrow> same_names s' s'' \<Longrightarrow> same_names s s''"
  by (simp add: same_names_def)

lemma same_names_root: "same_names s (s\<lparr>vdiTrees := ts\<rparr>)"
  by (simp add: same_names_def)

lemma same_names_link: "same_names s (set_parent_link s v p)"
  by (simp add: same_names_def set_parent_link_def Let_def)

lemma vdiTrees_link: "vdiTrees (set_parent_link s v p) = vdiTrees s"
  by (simp add: set_parent_link_def Let_def)

lemma same_names_unresolved: "same_names s s' \<Longrightarrow> unresolved s' v = unresolved s v"
  by (simp add: same_names_def unresolved_def getVDI_def)

lemma same_names_becomes_root: "same_names s s' \<Longrightarrow> becomes_root s' = becomes_root s"
  by (rule ext) (simp add: becomes_root_def same_names_unresolved, simp add: same_names_def)

lemma same_names_uuid: "same_names s s' \<Longrightarrow> uuid (objs s' v) = uuid (objs s v)"
  by (simp add: same_names_def)

lemma same_names_step: "same_names s (buildTree_step s vdi)"
  by (simp add: buildTree_step_def same_names_root same_names_link)

lemma vdiTrees_step:
  "vdiTrees (buildTree_step s vdi) = vdiTrees s @ (if becomes_root s vdi then [vdi] else [])"
  by (simp add: buildTree_step_def vdiTrees_link)

lemma buildTree_loop_Cons:
  "buildTree_loop force (vdi # rest) s =
     (if unresolved s vdi \<and> \<not> prefix TMP_RENAME_PREFIX (uuid (objs s vdi)) \<and> \<not> force
      then (Inl SMException, s)
      else buildTree_loop force rest (buildTree_step s vdi))"
  by (auto simp: buildTree_step_def becomes_root_def unresolved_def split: option.splits)

lemma buildTree_loop_raises:
  assumes "\<not> force"
    and "\<exists>v \<in> set vs. unresolved s v \<and> \<not> prefix TMP_RENAME_PREFIX (uuid (objs s v))"
  shows "fst (buildTree_loop force vs s) = Inl SMException"
  using assms(2)
proof (induction vs arbitrary: s)
  case Nil
  then show ?case by simp
next
  case (Cons vdi rest)
  show ?case
  proof (cases "unresolved s vdi \<and> \<not> prefix TMP_RENAME_PREFIX (uuid (objs s vdi))")
    case True
    with assms(1) show ?thesis by (simp add: buildTree_loop_Cons del: buildTree_loop.simps)
  next
    case False
    with Cons.prems have
      "\<exists>v \<in> set rest. unresolved s v \<and> \<not> prefix TMP_RENAME_PREFIX (uuid (objs s v))" by auto
    then have "\<exists>v \<in> set rest. unresolved (buildTree_step s vdi) v
        \<and> \<not> prefix TMP_RENAME_PREFIX (uuid (objs (buildTree_step s vdi) v))"
      using same_names_step [of s vdi]
      by (simp add: same_names_unresolved same_names_uuid)
    then have "fst (buildTree_loop force rest (buildTree_step s vdi)) = Inl SMException"
      by (rule Cons.IH)
    then show ?thesis by (simp add: buildTree_loop_Cons del: buildTree_loop.simps)
  qed
qed

lemma buildTree_loop_returns:
  assumes "\<forall>v \<in> set vs. unresolved s v \<longrightarrow> force \<or> prefix TMP_RENAME_PREFIX (uuid (objs s v))"
  shows "\<exists>s'. buildTree_loop force vs s = (Inr (), s')
     \<and> vdiTrees s' = vdiTrees s @ filter (becomes_root s) vs \<and> same_names s s'"
  using assms
proof (induction vs arbitrary: s)
  case Nil
  then show ?case by (simp add: same_names_refl)
next
  case (Cons vdi rest)
  let ?s1 = "buildTree_step s vdi"
  have sn: "same_names s ?s1" by (rule same_names_step)
  from Cons.prems have
    "\<forall>v \<in> set rest. unresolved ?s1 v \<longrightarrow> force \<or> prefix TMP_RENAME_PREFIX (uuid (objs ?s1 v))"
    using sn by (simp add: same_names_unresolved same_names_uuid)
  from Cons.IH [OF this] obtain s' where
    r: "buildTree_loop force rest ?s1 = (Inr (), s')"
    and t: "vdiTrees s' = vdiTrees ?s1 @ filter (becomes_root ?s1) rest"
    and n: "same_names ?s1 s'" by blast
  from Cons.prems have "\<not> (unresolved s vdi \<and> \<not> prefix TMP_RENAME_PREFIX (uuid (objs s vdi)) \<and> \<not> force)"
    by auto
  then have "buildTree_loop force (vdi # rest) s = (Inr (), s')"
    using r by (simp only: buildTree_loop_Cons if_False)
  moreover have "vdiTrees s' = vdiTrees s @ filter (becomes_root s) (vdi # rest)"
    using t by (simp add: vdiTrees_step same_names_becomes_root [OF sn])
  moreover have "same_names s s'" using sn n by (rule same_names_trans)
  ultimately show ?case by blast
qed

text \<open>
  Claim C9. When \<^verbatim>\<open>_buildTree\<close> runs with \<open>force\<close> false and some VDI of the SR has a
  non-empty \<open>parentUuid\<close> that does not resolve and a UUID that does not start with
  \<open>OLD_\<close>, it raises \<^verbatim>\<open>SMException\<close>. When \<open>force\<close> is true or every unresolved VDI carries
  the prefix, it returns, the roots are the VDIs with an empty or unresolved
  \<open>parentUuid\<close>, in the order of the dictionary, and so every unresolved VDI has become
  a root.
\<close>

theorem buildTree_unresolved_parent:
  "(\<not> force \<and> (\<exists>v \<in> set (map snd (vdis s)).
        unresolved s v \<and> \<not> prefix ''OLD_'' (uuid (objs s v)))
      \<longrightarrow> fst (buildTree force s) = Inl SMException)
   \<and> ((\<forall>v \<in> set (map snd (vdis s)).
          unresolved s v \<longrightarrow> force \<or> prefix ''OLD_'' (uuid (objs s v)))
      \<longrightarrow> (\<exists>s'. buildTree force s = (Inr (), s')
             \<and> vdiTrees s' = filter (becomes_root s) (map snd (vdis s))
             \<and> (\<forall>v \<in> set (map snd (vdis s)). unresolved s v \<longrightarrow> v \<in> set (vdiTrees s'))))"
proof -
  let ?s0 = "s\<lparr>vdiTrees := []\<rparr>"
  have sn: "same_names s ?s0" by (rule same_names_root)
  have u: "unresolved ?s0 = unresolved s" by (rule ext) (rule same_names_unresolved [OF sn])
  have i: "\<And>v. uuid (objs ?s0 v) = uuid (objs s v)" by simp
  have a: "fst (buildTree force s) = Inl SMException"
    if "\<not> force" "\<exists>v \<in> set (map snd (vdis s)). unresolved s v \<and> \<not> prefix ''OLD_'' (uuid (objs s v))"
    unfolding buildTree_def
    by (rule buildTree_loop_raises) (use that in \<open>simp_all add: u TMP_RENAME_PREFIX_def\<close>)
  have b: "\<exists>s'. buildTree force s = (Inr (), s')
             \<and> vdiTrees s' = filter (becomes_root s) (map snd (vdis s))
             \<and> (\<forall>v \<in> set (map snd (vdis s)). unresolved s v \<longrightarrow> v \<in> set (vdiTrees s'))"
    if h: "\<forall>v \<in> set (map snd (vdis s)). unresolved s v \<longrightarrow> force \<or> prefix ''OLD_'' (uuid (objs s v))"
  proof -
    have "\<forall>v \<in> set (map snd (vdis ?s0)). unresolved ?s0 v \<longrightarrow> force \<or> prefix TMP_RENAME_PREFIX (uuid (objs ?s0 v))"
      using h by (simp add: u TMP_RENAME_PREFIX_def)
    from buildTree_loop_returns [OF this] obtain s' where
      "buildTree_loop force (map snd (vdis ?s0)) ?s0 = (Inr (), s')"
      and "vdiTrees s' = vdiTrees ?s0 @ filter (becomes_root ?s0) (map snd (vdis ?s0))" by blast
    then have "buildTree force s = (Inr (), s')"
      and "vdiTrees s' = filter (becomes_root s) (map snd (vdis s))"
      by (simp_all add: buildTree_def same_names_becomes_root [OF sn])
    then show ?thesis by (auto simp: becomes_root_def)
  qed
  from a b show ?thesis by blast
qed

theorem buildTree_unresolved_parent_witness:
  "fst (buildTree False orphan_sr) = Inl SMException
   \<and> (\<exists>s'. buildTree False residue_sr = (Inr (), s') \<and> vdiTrees s' = [0, 1])
   \<and> (\<exists>s'. buildTree True orphan_sr = (Inr (), s') \<and> vdiTrees s' = [0, 1])"
proof -
  have u0: "\<not> unresolved orphan_sr 0" and u1: "unresolved orphan_sr 1"
    and p1: "\<not> prefix ''OLD_'' (uuid (objs orphan_sr 1))"
    and v0: "map snd (vdis orphan_sr) = [0, 1]"
    by (simp_all add: unresolved_def orphan_sr_def empty_sr_def blank_vdi_def getVDI_def)
  have r0: "\<not> unresolved residue_sr 0" and r1: "unresolved residue_sr 1"
    and r2: "\<not> unresolved residue_sr 2"
    and q1: "prefix ''OLD_'' (uuid (objs residue_sr 1))"
    and q2: "parentUuid (objs residue_sr 0) = [] \<and> parentUuid (objs residue_sr 2) \<noteq> []"
    and w0: "map snd (vdis residue_sr) = [0, 1, 2]"
    by (simp_all add: unresolved_def residue_sr_def empty_sr_def blank_vdi_def getVDI_def)
  have a: "fst (buildTree False orphan_sr) = Inl SMException"
    using buildTree_unresolved_parent [of False orphan_sr] u1 p1 v0 by simp
  have b: "\<exists>s'. buildTree False residue_sr = (Inr (), s') \<and> vdiTrees s' = [0, 1]"
    using buildTree_unresolved_parent [of False residue_sr] r0 r1 r2 q1 q2 w0
    by (auto simp add: becomes_root_def)
  have c: "\<exists>s'. buildTree True orphan_sr = (Inr (), s') \<and> vdiTrees s' = [0, 1]"
    using buildTree_unresolved_parent [of True orphan_sr] u0 u1 v0
    by (auto simp add: becomes_root_def orphan_sr_def empty_sr_def blank_vdi_def)
  from a b c show ?thesis by blast
qed

section \<open>Garbage, coalesceable and leaf-coalesceable VDIs\<close>

lemma prunable_children_members:
  assumes "prunable_children f cs tp acc = Inr (tp', l)"
    and "\<And>c cl. c \<in> set cs \<Longrightarrow> f c = Inr cl \<Longrightarrow> \<forall>v \<in> set cl. P v"
    and "\<forall>v \<in> set acc. P v"
  shows "\<forall>v \<in> set l. P v"
  using assms
proof (induction cs arbitrary: tp acc)
  case Nil
  then show ?case by simp
next
  case (Cons c cs)
  from Cons.prems(1) obtain cl where fc: "f c = Inr cl"
    and rest: "prunable_children f cs (if c \<notin> set cl then False else tp) (acc @ cl) = Inr (tp', l)"
    by (auto split: sum.splits)
  from Cons.prems(2) [of c cl] fc have "\<forall>v \<in> set cl. P v" by simp
  with Cons.prems(3) have acc: "\<forall>v \<in> set (acc @ cl). P v" by auto
  show ?case
    by (rule Cons.IH [OF rest _ acc]) (rule Cons.prems(2), simp_all)
qed

lemma getAllPrunable_members:
  "getAllPrunable depth s v = Inr l \<Longrightarrow> \<forall>w \<in> set l. not_visible_leaf s w"
proof (induction depth arbitrary: v l)
  case 0
  then show ?case by simp
next
  case (Suc depth)
  show ?case
  proof (cases "length (children (objs s v)) = 0")
    case True
    with Suc.prems show ?thesis
      by (auto simp: Let_def not_visible_leaf_def split: if_splits)
  next
    case False
    with Suc.prems obtain tp vl where
      pc: "prunable_children (getAllPrunable depth s) (children (objs s v)) True [] = Inr (tp, vl)"
      and l: "l = vl \<or> l = vl @ [v]"
      by (auto simp: Let_def split: sum.splits if_splits)
    have "\<forall>w \<in> set vl. not_visible_leaf s w"
      using pc
    proof (rule prunable_children_members)
      show "\<forall>v\<in>set []. not_visible_leaf s v" by simp
    next
      fix c cl assume "getAllPrunable depth s c = Inr cl"
      then show "\<forall>v\<in>set cl. not_visible_leaf s v" by (rule Suc.IH)
    qed
    moreover have "not_visible_leaf s v" using False by (simp add: not_visible_leaf_def)
    ultimately show ?thesis using l by auto
  qed
qed

lemma findGarbage_loop_members:
  assumes "findGarbage_loop f ts acc = Inr l"
    and "\<And>c cl. f c = Inr cl \<Longrightarrow> \<forall>v \<in> set cl. P v"
    and "\<forall>v \<in> set acc. P v"
  shows "\<forall>v \<in> set l. P v"
  using assms
proof (induction ts arbitrary: acc)
  case Nil
  then show ?case by simp
next
  case (Cons c cs)
  from Cons.prems(1) obtain cl where fc: "f c = Inr cl"
    and rest: "findGarbage_loop f cs (acc @ cl) = Inr l"
    by (auto split: sum.splits)
  from Cons.prems(2) [of c cl] fc have "\<forall>v \<in> set cl. P v" by simp
  with Cons.prems(3) have acc: "\<forall>v \<in> set (acc @ cl). P v" by auto
  show ?case
    by (rule Cons.IH [OF rest _ acc]) (rule Cons.prems(2))
qed

text \<open>
  Claim C6, as stated, fails: the VDIs that \<^verbatim>\<open>findGarbage\<close> returns and the coalesceable
  VDIs are not disjoint. In the tree of \<open>chain_sr\<close> all three VDIs are garbage, and the
  middle one, hidden, with one child and alone below its parent, is coalesceable as well.
\<close>

theorem garbage_and_coalesceable_overlap:
  "findGarbage 10 chain_sr = Inr [2, 1, 0] \<and> isCoalesceable chain_sr 1"
  by (simp add: findGarbage_def chain_sr_def empty_sr_def chain_objs_def blank_vdi_def
      isCoalesceable_def journal_has_def journal_get_def numeral_eq_Suc)

text \<open>
  Claim C6, amended. The VDIs that \<^verbatim>\<open>findGarbage\<close> returns and the coalesceable VDIs are
  each disjoint from the leaf-coalesceable VDIs: no VDI of the list that \<^verbatim>\<open>findGarbage\<close>
  returns is leaf-coalesceable, and no coalesceable VDI is leaf-coalesceable. (Garbage
  and coalesceable VDIs may overlap.)
\<close>

theorem leafCoalesceable_disjoint:
  "(findGarbage depth s = Inr garbage \<longrightarrow> (\<forall>v \<in> set garbage. \<not> isLeafCoalesceable s v))
   \<and> (isCoalesceable s v \<longrightarrow> \<not> isLeafCoalesceable s v)"
proof -
  have "\<forall>v \<in> set garbage. not_visible_leaf s v" if "findGarbage depth s = Inr garbage"
    using that unfolding findGarbage_def
    by (rule findGarbage_loop_members) (auto dest: getAllPrunable_members)
  then show ?thesis
    by (auto simp: isLeafCoalesceable_def isCoalesceable_def not_visible_leaf_def Let_def)
qed

theorem leafCoalesceable_disjoint_witness:
  "findGarbage 10 chain_sr = Inr [2, 1, 0]
   \<and> \<not> isLeafCoalesceable chain_sr 2 \<and> \<not> isLeafCoalesceable chain_sr 1
   \<and> \<not> isLeafCoalesceable chain_sr 0 \<and> isCoalesceable chain_sr 1"
proof -
  have g: "findGarbage 10 chain_sr = Inr [2, 1, 0]" and c: "isCoalesceable chain_sr 1"
    by (simp_all add: findGarbage_def chain_sr_def empty_sr_def chain_objs_def blank_vdi_def
      isCoalesceable_def journal_has_def journal_get_def numeral_eq_Suc)
  from leafCoalesceable_disjoint [of 10 chain_sr "[2, 1, 0]" 1] g c
  show ?thesis by simp
qed

section \<open>Properties of pauseVDIs\<close>

lemma unpauseVDIs_loop_calls:
  "calls (snd (unpauseVDIs_loop env vs failed t)) = calls t @ map (\<lambda>v. TapUnpause (uuid v)) vs"
  by (induction vs arbitrary: failed t)
    (auto simp: vdi_unpause_def tap_unpause_def Let_def split: prod.splits sum.splits)

lemma unpauseVDIs_loop_paused:
  "paused (snd (unpauseVDIs_loop env vs failed t)) =
     paused t - {u \<in> uuid ` set vs. \<not> unpause_fails env u}"
  by (induction vs arbitrary: failed t)
    (auto simp: vdi_unpause_def tap_unpause_def Let_def split: prod.splits sum.splits)

lemma unpauseVDIs_calls:
  "calls (snd (unpauseVDIs env t vs)) = calls t @ map (\<lambda>v. TapUnpause (uuid v)) vs"
  using unpauseVDIs_loop_calls [of env vs False t]
  by (cases "unpauseVDIs_loop env vs False t") (simp add: unpauseVDIs_def)

lemma unpauseVDIs_paused:
  "paused (snd (unpauseVDIs env t vs)) = paused t - {u \<in> uuid ` set vs. \<not> unpause_fails env u}"
  using unpauseVDIs_loop_paused [of env vs False t]
  by (cases "unpauseVDIs_loop env vs False t") (simp add: unpauseVDIs_def)

lemma pauseVDIs_loop_all:
  assumes "\<forall>v \<in> set vs. \<not> pause_fails env (uuid v)"
  shows "pauseVDIs_loop env vs pl t =
     (False, pl @ vs,
      t\<lparr>calls := calls t @ map (\<lambda>v. TapPause (uuid v)) vs,
        paused := paused t \<union> uuid ` set vs\<rparr>)"
  using assms
proof (induction vs arbitrary: pl t)
  case Nil
  show ?case by simp
next
  case (Cons v vs)
  then show ?case
    by (simp add: vdi_pause_def tap_pause_def Let_def insert_commute Un_commute) 
qed

lemma pauseVDIs_loop_fail:
  assumes "\<forall>v \<in> set pre. \<not> pause_fails env (uuid v)" and "pause_fails env (uuid f)"
  shows "pauseVDIs_loop env (pre @ f # post) pl t =
     (True, pl @ pre,
      t\<lparr>calls := calls t @ map (\<lambda>v. TapPause (uuid v)) (pre @ [f]),
        paused := paused t \<union> uuid ` set pre\<rparr>)"
  using assms
proof (induction pre arbitrary: pl t)
  case Nil
  then show ?case by (simp add: vdi_pause_def tap_pause_def Let_def)
next
  case (Cons v vs)
  then show ?case
    by (simp add: vdi_pause_def tap_pause_def Let_def insert_commute Un_commute)
qed

text \<open>
  Claim C8, as stated, fails when an unpause fails as well. With the VDIs \<open>a\<close>, \<open>b\<close>, \<open>c\<close>,
  where pausing \<open>b\<close> fails and unpausing \<open>a\<close> fails, \<^verbatim>\<open>pauseVDIs\<close> raises, and \<open>a\<close>, which was
  paused before the failure, is still paused afterwards: \<^verbatim>\<open>unpauseVDIs\<close> logs the failed
  unpause and goes on.
\<close>

theorem pauseVDIs_leaves_paused:
  "pauseVDIs stuck_tap_env idle_tapdisks [vdi_a, vdi_b, vdi_c] =
     (Inl SMException,
      \<lparr> paused = {''a''}, calls = [TapPause ''a'', TapPause ''b'', TapUnpause ''a''] \<rparr>)"
  by (simp add: pauseVDIs_def unpauseVDIs_def vdi_pause_def vdi_unpause_def tap_pause_def
      tap_unpause_def stuck_tap_env_def idle_tapdisks_def vdi_a_def vdi_b_def vdi_c_def
      blank_vdi_def Let_def)

text \<open>
  Claim C8, amended. If no pause fails, \<^verbatim>\<open>pauseVDIs\<close> returns normally, with one pause
  call per VDI of the list, and every VDI of the list is paused. If the pause of \<open>f\<close> is
  the first to fail, \<^verbatim>\<open>pauseVDIs\<close> raises \<^verbatim>\<open>SMException\<close>; it has paused the VDIs before \<open>f\<close>,
  tried \<open>f\<close>, and then called unpause on exactly the VDIs before \<open>f\<close>, in order; each of
  them is unpaused again unless its own unpause fails.
\<close>

theorem pauseVDIs_all_or_unpause:
  "((\<forall>v \<in> set vdiList. \<not> pause_fails env (uuid v)) \<longrightarrow>
      fst (pauseVDIs env t vdiList) = Inr ()
      \<and> paused (snd (pauseVDIs env t vdiList)) = paused t \<union> uuid ` set vdiList
      \<and> calls (snd (pauseVDIs env t vdiList)) = calls t @ map (\<lambda>v. TapPause (uuid v)) vdiList)
   \<and> (vdiList = pre @ f # post \<and> (\<forall>v \<in> set pre. \<not> pause_fails env (uuid v))
        \<and> pause_fails env (uuid f) \<longrightarrow>
      fst (pauseVDIs env t vdiList) = Inl SMException
      \<and> calls (snd (pauseVDIs env t vdiList)) =
          calls t @ map (\<lambda>v. TapPause (uuid v)) (pre @ [f]) @ map (\<lambda>v. TapUnpause (uuid v)) pre
      \<and> paused (snd (pauseVDIs env t vdiList)) =
          (paused t \<union> uuid ` set pre) - {u \<in> uuid ` set pre. \<not> unpause_fails env u})"
proof (intro conjI impI)
  assume a: "\<forall>v \<in> set vdiList. \<not> pause_fails env (uuid v)"
  show "fst (pauseVDIs env t vdiList) = Inr ()"
    and "paused (snd (pauseVDIs env t vdiList)) = paused t \<union> uuid ` set vdiList"
    and "calls (snd (pauseVDIs env t vdiList)) = calls t @ map (\<lambda>v. TapPause (uuid v)) vdiList"
    by (simp_all add: pauseVDIs_def pauseVDIs_loop_all [OF a])
next
  assume b: "vdiList = pre @ f # post \<and> (\<forall>v \<in> set pre. \<not> pause_fails env (uuid v))
        \<and> pause_fails env (uuid f)"
  let ?t1 = "t\<lparr>calls := calls t @ map (\<lambda>v. TapPause (uuid v)) (pre @ [f]),
        paused := paused t \<union> uuid ` set pre\<rparr>"
  from b have l: "pauseVDIs_loop env vdiList [] t = (True, pre, ?t1)"
    using pauseVDIs_loop_fail [of pre env f post "[]" t] by simp
  obtain r t2 where u: "unpauseVDIs env ?t1 pre = (r, t2)" by (cases "unpauseVDIs env ?t1 pre")
  have c: "calls t2 = calls ?t1 @ map (\<lambda>v. TapUnpause (uuid v)) pre"
    using unpauseVDIs_calls [of env ?t1 pre] u by simp
  have p: "paused t2 = paused ?t1 - {u \<in> uuid ` set pre. \<not> unpause_fails env u}"
    using unpauseVDIs_paused [of env ?t1 pre] u by simp
  have e: "r = Inl SMException \<or> r = Inr ()"
    using u by (auto simp: unpauseVDIs_def split: prod.splits if_splits)
  show "fst (pauseVDIs env t vdiList) = Inl SMException"
    using l u e by (auto simp: pauseVDIs_def)
  show "calls (snd (pauseVDIs env t vdiList)) =
          calls t @ map (\<lambda>v. TapPause (uuid v)) (pre @ [f]) @ map (\<lambda>v. TapUnpause (uuid v)) pre"
    using l u e c by (auto simp: pauseVDIs_def)
  show "paused (snd (pauseVDIs env t vdiList)) =
          (paused t \<union> uuid ` set pre) - {u \<in> uuid ` set pre. \<not> unpause_fails env u}"
    using l u e p by (auto simp: pauseVDIs_def)
qed

theorem pauseVDIs_all_or_unpause_witness:
  "fst (pauseVDIs b_fails_tap_env idle_tapdisks [vdi_a, vdi_c]) = Inr ()
   \<and> paused (snd (pauseVDIs b_fails_tap_env idle_tapdisks [vdi_a, vdi_c])) = {''a'', ''c''}
   \<and> fst (pauseVDIs b_fails_tap_env idle_tapdisks [vdi_a, vdi_b, vdi_c]) = Inl SMException
   \<and> calls (snd (pauseVDIs b_fails_tap_env idle_tapdisks [vdi_a, vdi_b, vdi_c])) =
        [TapPause ''a'', TapPause ''b'', TapUnpause ''a'']
   \<and> paused (snd (pauseVDIs b_fails_tap_env idle_tapdisks [vdi_a, vdi_b, vdi_c])) = {}"
proof -
  have u: "uuid vdi_a = ''a''" "uuid vdi_b = ''b''" "uuid vdi_c = ''c''"
    by (simp_all add: vdi_a_def vdi_b_def vdi_c_def blank_vdi_def)
  have i: "paused idle_tapdisks = {}" "calls idle_tapdisks = []"
    by (simp_all add: idle_tapdisks_def)
  have p1: "\<forall>v \<in> set [vdi_a, vdi_c]. \<not> pause_fails b_fails_tap_env (uuid v)"
    by (simp add: u b_fails_tap_env_def)
  have p2: "[vdi_a, vdi_b, vdi_c] = [vdi_a] @ vdi_b # [vdi_c]
      \<and> (\<forall>v \<in> set [vdi_a]. \<not> pause_fails b_fails_tap_env (uuid v))
      \<and> pause_fails b_fails_tap_env (uuid vdi_b)"
    by (simp add: u b_fails_tap_env_def)
  have q: "{x \<in> uuid ` set [vdi_a]. \<not> unpause_fails b_fails_tap_env x} = {''a''}"
    by (auto simp: u b_fails_tap_env_def)
  note t1 = pauseVDIs_all_or_unpause
    [of "[vdi_a, vdi_c]" b_fails_tap_env idle_tapdisks "[]" vdi_a "[]", THEN conjunct1, THEN mp, OF p1]
  note t2 = pauseVDIs_all_or_unpause
    [of "[vdi_a, vdi_b, vdi_c]" b_fails_tap_env idle_tapdisks "[vdi_a]" vdi_b "[vdi_c]",
      THEN conjunct2, THEN mp, OF p2]
  have a: "fst (pauseVDIs b_fails_tap_env idle_tapdisks [vdi_a, vdi_c]) = Inr ()"
    using t1 by (rule conjunct1)
  have b: "paused (snd (pauseVDIs b_fails_tap_env idle_tapdisks [vdi_a, vdi_c])) = {''a'', ''c''}"
    using t1 [THEN conjunct2, THEN conjunct1] by (simp add: u i)
  have c: "fst (pauseVDIs b_fails_tap_env idle_tapdisks [vdi_a, vdi_b, vdi_c]) = Inl SMException"
    using t2 by (rule conjunct1)
  have d: "calls (snd (pauseVDIs b_fails_tap_env idle_tapdisks [vdi_a, vdi_b, vdi_c])) =
        [TapPause ''a'', TapPause ''b'', TapUnpause ''a'']"
    using t2 [THEN conjunct2, THEN conjunct1] by (simp add: u i)
  have e: "paused (snd (pauseVDIs b_fails_tap_env idle_tapdisks [vdi_a, vdi_b, vdi_c])) = {}"
    unfolding t2 [THEN conjunct2, THEN conjunct2] q by (simp add: u i)
  from a b c d e show ?thesis by blast
qed

section \<open>Properties of findCoalesceable\<close>

lemma countBits_one_block: "countBits [1] [1] = Inr 1"
  by (simp add: countBits_nonempty bitcount_def or_bitmaps_def zero_extend_def popcount_def
      upt_8_Cons bit_0)

lemma relink_sr_space_needed:
  "calcExtraSpaceForCoalescing one_block_vhdutil relink_sr 11 = Inr 1048576"
  by (simp add: calcExtraSpaceForCoalescing_def VDI_getCoalescedSizeData_def
      getCoalescedSizeData_def countBits_one_block one_block_vhdutil_def relink_sr_def
      pvl_sr_def pvl_objs_def empty_sr_def blank_vdi_def getSizeVHD_def Let_def)

lemma pvl_sr_space_needed:
  "calcExtraSpaceForCoalescing one_block_vhdutil pvl_sr 11 = Inr 1048576"
  by (simp add: calcExtraSpaceForCoalescing_def VDI_getCoalescedSizeData_def
      getCoalescedSizeData_def countBits_one_block one_block_vhdutil_def
      pvl_sr_def pvl_objs_def empty_sr_def blank_vdi_def getSizeVHD_def Let_def)

lemma pvl_sr_root: "getTreeRoot pvl_sr 11 = Some 10"
  by (simp add: getTreeRoot.simps pvl_sr_def pvl_objs_def empty_sr_def blank_vdi_def)

lemma pvl_sr_height: "getTreeHeight 10 pvl_sr 10 = Inr 3"
  by (simp add: numeral_eq_Suc pvl_sr_def pvl_objs_def empty_sr_def blank_vdi_def)

lemma pvl_sr_candidates:
  "[v \<leftarrow> map snd (vdis pvl_sr).
      isCoalesceable pvl_sr v \<and> v \<notin> set (failedCoalesceTargets pvl_sr)] = [11]"
  by (simp add: pvl_sr_def pvl_objs_def empty_sr_def blank_vdi_def isCoalesceable_def)

lemma pvl_sr_groups: "group_by_height 10 pvl_sr [11] [] = Some (Inr [(3, [11])])"
  by (simp add: pvl_sr_root pvl_sr_height)

lemma pvl_sr_no_relink:
  "relink_first pvl_sr (map fst (journal_getAll pvl_sr JRN_RELINK)) = None"
  and pvl_sr_switch: "other_config pvl_sr DB_COALESCE = None"
  by (simp_all add: pvl_sr_def empty_sr_def journal_getAll_def)

lemma pvl_sr_found:
  "\<exists>s'. findCoalesceable one_block_vhdutil 2000000 10 pvl_sr = Some (Inr (FoundVDI 11, s'))"
  unfolding findCoalesceable_def Let_def pvl_sr_candidates pvl_sr_groups pvl_sr_no_relink
    pvl_sr_switch
  by (simp add: pvl_sr_space_needed by_falling_height_def)

lemma calcExtra_no_space_update:
  "calcExtraSpaceForCoalescing vh (s\<lparr>no_space_candidates := n\<rparr>) v = calcExtraSpaceForCoalescing vh s v"
  by (simp add: calcExtraSpaceForCoalescing_def VDI_getCoalescedSizeData_def Let_def
      cong: sum.case_cong option.case_cong)

lemma space_loop_found:
  assumes "space_loop vh freeSpace cs s = Inr (FoundVDI v, s')"
  shows "\<exists>spaceNeeded. calcExtraSpaceForCoalescing vh s v = Inr spaceNeeded \<and> spaceNeeded \<le> freeSpace
     \<and> v \<in> set cs"
  using assms
proof (induction cs arbitrary: s)
  case Nil
  then show ?case by simp
next
  case (Cons c cs)
  from Cons.prems obtain n where n: "calcExtraSpaceForCoalescing vh s c = Inr n"
    by (auto split: sum.splits)
  show ?case
  proof (cases "n \<le> freeSpace")
    case True
    with Cons.prems n show ?thesis by auto
  next
    case False
    let ?s1 = "s\<lparr>no_space_candidates := AList.update (uuid (objs s c)) c (no_space_candidates s)\<rparr>"
    from False Cons.prems n have "space_loop vh freeSpace cs ?s1 = Inr (FoundVDI v, s')" by simp
    from Cons.IH [OF this] show ?thesis by (auto simp: calcExtra_no_space_update)
  qed
qed

text \<open>
  Claim C2, as stated, fails. In \<open>relink_sr\<close> the journal holds a relink entry for the
  coalesceable VDI \<open>V\<close>; \<^verbatim>\<open>findCoalesceable\<close> returns \<open>V\<close> although coalescing it is predicted
  to need 1 MiB and the free space is 0: a VDI with a relink journal entry is returned
  before any space check ("finish any VDI for which a relink journal entry exists
  first").
\<close>

theorem findCoalesceable_relink_skips_space_check:
  "findCoalesceable one_block_vhdutil 0 10 relink_sr = Some (Inr (FoundVDI 11, relink_sr))
   \<and> calcExtraSpaceForCoalescing one_block_vhdutil relink_sr 11 = Inr 1048576
   \<and> \<not> (1048576::int) \<le> 0"
  by (simp add: relink_sr_space_needed)
    (simp add: findCoalesceable_def relink_sr_def pvl_sr_def empty_sr_def journal_getAll_def
      JRN_RELINK_def getVDI_def Let_def)

text \<open>
  Claim C2, amended. Every VDI that \<^verbatim>\<open>findCoalesceable\<close> returns is either the first VDI
  with a relink journal entry (present in the SR and not a failed target), or its
  predicted extra space, computed during the call, is at most the free space of the
  call.
\<close>

theorem findCoalesceable_space_checked:
  assumes "findCoalesceable vh freeSpace depth s = Some (Inr (FoundVDI v, s'))"
  shows "relink_first s (map fst (journal_getAll s JRN_RELINK)) = Some v
     \<or> (\<exists>spaceNeeded. calcExtraSpaceForCoalescing vh s v = Inr spaceNeeded
          \<and> spaceNeeded \<le> freeSpace)"
proof (cases "relink_first s (map fst (journal_getAll s JRN_RELINK))")
  case (Some w)
  with assms show ?thesis
    by (auto simp: findCoalesceable_def Let_def split: if_splits)
next
  case None
  with assms obtain cs where "space_loop vh freeSpace cs s = Inr (FoundVDI v, s')"
    by (auto simp: findCoalesceable_def Let_def split: if_splits option.splits sum.splits)
  from space_loop_found [OF this] show ?thesis by blast
qed


theorem findCoalesceable_space_checked_witness:
  "(\<exists>s'. findCoalesceable one_block_vhdutil 2000000 10 pvl_sr = Some (Inr (FoundVDI 11, s')))
   \<and> (\<exists>spaceNeeded. calcExtraSpaceForCoalescing one_block_vhdutil pvl_sr 11 = Inr spaceNeeded
         \<and> spaceNeeded \<le> 2000000)"
proof -
  from pvl_sr_found obtain s' where
    f: "findCoalesceable one_block_vhdutil 2000000 10 pvl_sr = Some (Inr (FoundVDI 11, s'))"
    by blast
  from findCoalesceable_space_checked [OF f] pvl_sr_no_relink
  have "\<exists>spaceNeeded. calcExtraSpaceForCoalescing one_block_vhdutil pvl_sr 11 = Inr spaceNeeded
         \<and> spaceNeeded \<le> 2000000" by simp
  with f show ?thesis by blast
qed

end
